theory Spec2Isabelle
  imports Complex_Main "HOL-Library.AList"
begin

section \<open>Numbers and exceptions\<close>

text \<open>
  Prices, quantities and cash are Python floats.  The accounting code of the backtester
  only adds, subtracts, multiplies and compares them, so they are modelled as exact
  reals: every value is finite and rounding is not modelled.  Where the source divides
  (numpy and pandas arrays, which do not raise on a zero divisor) the quotient lives
  in \<open>pyfloat\<close>, the reals extended with the IEEE special values; the sign of a zero
  is not tracked (a positive number over zero is taken as \<open>PInf\<close>).
\<close>

datatype pyfloat = Fin real | PInf | NInf | NaN

datatype py_error = IndexError | KeyError | ValueError | StrategyError

fun fneg :: "pyfloat \<Rightarrow> pyfloat" where
  "fneg (Fin a) = Fin (- a)"
| "fneg PInf = NInf"
| "fneg NInf = PInf"
| "fneg NaN = NaN"

fun fadd :: "pyfloat \<Rightarrow> pyfloat \<Rightarrow> pyfloat" where
  "fadd NaN _ = NaN"
| "fadd _ NaN = NaN"
| "fadd (Fin a) (Fin b) = Fin (a + b)"
| "fadd PInf NInf = NaN"
| "fadd NInf PInf = NaN"
| "fadd PInf _ = PInf"
| "fadd _ PInf = PInf"
| "fadd NInf _ = NInf"
| "fadd _ NInf = NInf"

definition fsub :: "pyfloat \<Rightarrow> pyfloat \<Rightarrow> pyfloat" where
  "fsub x y = fadd x (fneg y)"

fun fmul :: "pyfloat \<Rightarrow> pyfloat \<Rightarrow> pyfloat" where
  "fmul NaN _ = NaN"
| "fmul _ NaN = NaN"
| "fmul (Fin a) (Fin b) = Fin (a * b)"
| "fmul (Fin a) PInf = (if a = 0 then NaN else if 0 < a then PInf else NInf)"
| "fmul (Fin a) NInf = (if a = 0 then NaN else if 0 < a then NInf else PInf)"
| "fmul PInf (Fin b) = (if b = 0 then NaN else if 0 < b then PInf else NInf)"
| "fmul NInf (Fin b) = (if b = 0 then NaN else if 0 < b then NInf else PInf)"
| "fmul PInf PInf = PInf"
| "fmul NInf NInf = PInf"
| "fmul PInf NInf = NInf"
| "fmul NInf PInf = NInf"

fun fdiv :: "pyfloat \<Rightarrow> pyfloat \<Rightarrow> pyfloat" where
  "fdiv NaN _ = NaN"
| "fdiv _ NaN = NaN"
| "fdiv (Fin a) (Fin b) =
     (if b = 0 then (if a = 0 then NaN else if 0 < a then PInf else NInf)
      else Fin (a / b))"
| "fdiv (Fin a) PInf = Fin 0"
| "fdiv (Fin a) NInf = Fin 0"
| "fdiv PInf (Fin b) = (if 0 \<le> b then PInf else NInf)"
| "fdiv NInf (Fin b) = (if 0 \<le> b then NInf else PInf)"
| "fdiv PInf PInf = NaN"
| "fdiv PInf NInf = NaN"
| "fdiv NInf PInf = NaN"
| "fdiv NInf NInf = NaN"

fun fsqrt :: "pyfloat \<Rightarrow> pyfloat" where
  "fsqrt (Fin a) = (if 0 \<le> a then Fin (sqrt a) else NaN)"
| "fsqrt PInf = PInf"
| "fsqrt NInf = NaN"
| "fsqrt NaN = NaN"

text \<open>Comparisons: every comparison with \<open>NaN\<close> is false.\<close>

fun flt :: "pyfloat \<Rightarrow> pyfloat \<Rightarrow> bool" where
  "flt NaN _ = False"
| "flt _ NaN = False"
| "flt (Fin a) (Fin b) = (a < b)"
| "flt NInf NInf = False"
| "flt NInf _ = True"
| "flt PInf _ = False"
| "flt (Fin a) PInf = True"
| "flt (Fin a) NInf = False"

definition fgt :: "pyfloat \<Rightarrow> pyfloat \<Rightarrow> bool" where
  "fgt x y = flt y x"

definition fle :: "pyfloat \<Rightarrow> pyfloat \<Rightarrow> bool" where
  "fle x y = (x \<noteq> NaN \<and> y \<noteq> NaN \<and> \<not> flt y x)"

section \<open>Data model of the backtester\<close>

text \<open>
  A row of an OHLCV DataFrame.  Timestamps (\<open>datetime\<close>) are integers, compared as the
  source compares them.
\<close>

record bar =
  timestamp :: int
  open_price :: real
  high :: real
  low :: real
  close :: real
  volume :: real

text \<open>
  A DataFrame is either a frame with the six OHLCV columns, given by its rows in row
  order (it may have no row), or the empty frame without columns, \<open>pd.DataFrame()\<close>,
  which the live engine stores for an instrument without data.  Reading a column of the
  latter (\<open>df["timestamp"]\<close>) raises \<open>KeyError\<close>; iterating its rows yields nothing.
\<close>

datatype dataframe = Frame "bar list" | Columnless

text \<open>\<open>df.iterrows()\<close>\<close>

definition frame_rows :: "dataframe \<Rightarrow> bar list" where
  "frame_rows df = (case df of Frame rows \<Rightarrow> rows | Columnless \<Rightarrow> [])"

text \<open>\<open>df[cond(df["timestamp"])]\<close>: the rows whose timestamp meets the condition.\<close>

definition select_by_timestamp :: "(int \<Rightarrow> bool) \<Rightarrow> dataframe \<Rightarrow> py_error + dataframe" where
  "select_by_timestamp cond df =
     (case df of
        Columnless \<Rightarrow> Inl KeyError
      | Frame rows \<Rightarrow> Inr (Frame (filter (\<lambda>b. cond (timestamp b)) rows)))"

text \<open>
  Python dictionaries keep insertion order; they are association lists whose keys are
  distinct, read with \<open>map_of\<close>, written with \<open>AList.update\<close> (in place for a key that
  is present, at the end for a new one) and \<open>AList.delete\<close>.
\<close>

type_synonym historical_data = "(string \<times> dataframe) list"

record ticker =
  last_price :: real
  bid :: real
  ask :: real
  tick_volume :: real

record market_entry =
  ticker :: ticker
  ohlcv :: dataframe

type_synonym market_snapshot = "(string \<times> market_entry) list"

text \<open>
  A signal is a dictionary read with \<open>signal.get\<close>: a missing key gives \<open>None\<close>
  (\<open>0\<close> for the amount).
\<close>

record signal =
  action :: "string option"
  symbol :: "string option"
  amount :: "real option"

record trade =
  trade_timestamp :: int
  trade_action :: string
  trade_symbol :: string
  trade_amount :: real
  trade_price :: real
  trade_cost :: "real option"
  trade_proceeds :: "real option"

record backtester =
  initial_capital :: real
  commission :: real
  slippage :: real
  capital :: real
  positions :: "(string \<times> real) list"
  trades :: "trade list"
  equity_curve :: "real list"
  timestamps :: "int list"

section \<open>Construction and reset\<close>

definition reset :: "backtester \<Rightarrow> backtester" where
  "reset bt = bt\<lparr>capital := initial_capital bt, positions := [], trades := [],
     equity_curve := [initial_capital bt], timestamps := []\<rparr>"

definition init :: "real \<Rightarrow> real \<Rightarrow> real \<Rightarrow> backtester" where
  "init ic com slip =
     reset \<lparr>initial_capital = ic, commission = com, slippage = slip, capital = 0,
       positions = [], trades = [], equity_curve = [], timestamps = []\<rparr>"

section \<open>Market snapshot\<close>

text \<open>
  The body of the loop over \<open>historical_data.items()\<close>, and the loop, which stops at
  the first frame whose timestamp column cannot be read.
\<close>

definition snapshot_step ::
  "int \<Rightarrow> string \<times> dataframe \<Rightarrow> market_snapshot \<Rightarrow> py_error + market_snapshot" where
  "snapshot_step ts item snapshot =
     (let smb = fst item; df = snd item
      in case select_by_timestamp (\<lambda>t. t \<le> ts) df of
           Inl e \<Rightarrow> Inl e
         | Inr current_data \<Rightarrow>
            if frame_rows current_data \<noteq> [] then
              let latest = last (frame_rows current_data) in
              Inr (AList.update smb
                \<lparr>ticker = \<lparr>last_price = close latest, bid = low latest, ask = high latest,
                            tick_volume = volume latest\<rparr>,
                 ohlcv = current_data\<rparr> snapshot)
            else Inr snapshot)"

fun snapshot_loop ::
  "int \<Rightarrow> historical_data \<Rightarrow> market_snapshot \<Rightarrow> py_error + market_snapshot" where
  "snapshot_loop ts [] snapshot = Inr snapshot"
| "snapshot_loop ts (item # items) snapshot =
     (case snapshot_step ts item snapshot of
        Inl e \<Rightarrow> Inl e
      | Inr snapshot' \<Rightarrow> snapshot_loop ts items snapshot')"

definition prepare_market_snapshot :: "historical_data \<Rightarrow> int \<Rightarrow> py_error + market_snapshot" where
  "prepare_market_snapshot hdata ts = snapshot_loop ts hdata []"

section \<open>Executing a signal\<close>

text \<open>
  \<open>_execute_backtest_signal\<close> mutates the engine and returns nothing.  The model returns
  the exception raised, if any, with the state the engine is left in: the trade record
  reads \<open>self.timestamps[-1]\<close> after cash and positions have been written, so with an
  empty timestamp list the call raises \<open>IndexError\<close> on an engine already updated.
\<close>

definition append_trade :: "backtester \<Rightarrow> (int \<Rightarrow> trade) \<Rightarrow> py_error option \<times> backtester" where
  "append_trade bt mk =
     (if timestamps bt = [] then (Some IndexError, bt)
      else (None, bt\<lparr>trades := trades bt @ [mk (last (timestamps bt))]\<rparr>))"

text \<open>\<open>self.positions.get(symbol, 0)\<close>\<close>

definition positions_get :: "backtester \<Rightarrow> string \<Rightarrow> real" where
  "positions_get bt smb = (case map_of (positions bt) smb of None \<Rightarrow> 0 | Some q \<Rightarrow> q)"

definition signal_amount :: "signal \<Rightarrow> real" where
  "signal_amount sg = (case amount sg of None \<Rightarrow> 0 | Some a \<Rightarrow> a)"

text \<open>The local values of the buy branch and of the sell branch.\<close>

definition buy_execution_price :: "backtester \<Rightarrow> real \<Rightarrow> real" where
  "buy_execution_price bt price = price * (1 + slippage bt)"

definition buy_cost :: "backtester \<Rightarrow> real \<Rightarrow> real \<Rightarrow> real" where
  "buy_cost bt price amt = buy_execution_price bt price * amt"

definition buy_commission_cost :: "backtester \<Rightarrow> real \<Rightarrow> real \<Rightarrow> real" where
  "buy_commission_cost bt price amt = buy_cost bt price amt * commission bt"

definition buy_total_cost :: "backtester \<Rightarrow> real \<Rightarrow> real \<Rightarrow> real" where
  "buy_total_cost bt price amt = buy_cost bt price amt + buy_commission_cost bt price amt"

definition sell_execution_price :: "backtester \<Rightarrow> real \<Rightarrow> real" where
  "sell_execution_price bt price = price * (1 - slippage bt)"

definition sell_proceeds :: "backtester \<Rightarrow> real \<Rightarrow> real \<Rightarrow> real" where
  "sell_proceeds bt price amt = sell_execution_price bt price * amt"

definition sell_net_proceeds :: "backtester \<Rightarrow> real \<Rightarrow> real \<Rightarrow> real" where
  "sell_net_proceeds bt price amt =
     sell_proceeds bt price amt - sell_proceeds bt price amt * commission bt"

definition execute_backtest_signal ::
  "signal \<Rightarrow> market_snapshot \<Rightarrow> backtester \<Rightarrow> py_error option \<times> backtester" where
  "execute_backtest_signal sg market_data bt =
     (let amt = signal_amount sg in
      case symbol sg of
        None \<Rightarrow> (None, bt)
      | Some smb \<Rightarrow>
         (case map_of market_data smb of
            None \<Rightarrow> (None, bt)
          | Some entry \<Rightarrow>
             let price = last_price (ticker entry) in
             if action sg = Some ''buy'' then
               let total_cost = buy_total_cost bt price amt
               in if total_cost \<le> capital bt then
                    append_trade
                      (bt\<lparr>capital := capital bt - total_cost,
                          positions := AList.update smb
                            (positions_get bt smb + amt)
                            (positions bt)\<rparr>)
                      (\<lambda>t. \<lparr>trade_timestamp = t, trade_action = ''buy'', trade_symbol = smb,
                             trade_amount = amt,
                             trade_price = buy_execution_price bt price,
                             trade_cost = Some total_cost, trade_proceeds = None\<rparr>)
                  else (None, bt)
             else if action sg = Some ''sell'' then
               (case map_of (positions bt) smb of
                  None \<Rightarrow> (None, bt)
                | Some held \<Rightarrow>
                   if held \<ge> amt then
                     let net_proceeds = sell_net_proceeds bt price amt;
                         remaining = held - amt;
                         positions1 = AList.update smb remaining (positions bt);
                         positions2 = (if remaining = 0 then AList.delete smb positions1
                                       else positions1)
                     in append_trade
                          (bt\<lparr>capital := capital bt + net_proceeds, positions := positions2\<rparr>)
                          (\<lambda>t. \<lparr>trade_timestamp = t, trade_action = ''sell'', trade_symbol = smb,
                                 trade_amount = amt,
                                 trade_price = sell_execution_price bt price,
                                 trade_cost = None, trade_proceeds = Some net_proceeds\<rparr>)
                   else (None, bt))
             else (None, bt)))"

section \<open>Portfolio value\<close>

definition calculate_portfolio_value :: "market_snapshot \<Rightarrow> backtester \<Rightarrow> real" where
  "calculate_portfolio_value market_data bt =
     fold (\<lambda>(smb, amt) total_value.
        case map_of market_data smb of
          Some entry \<Rightarrow> total_value + last_price (ticker entry) * amt
        | None \<Rightarrow> total_value) (positions bt) (capital bt)"

section \<open>The replay loop\<close>

text \<open>
  A strategy is an object with its own state: it is a function from its state and the
  snapshot to the signal (or \<open>None\<close>) and its next state, or to the exception it raises,
  which \<open>run\<close> does not catch.  The test \<open>if signal:\<close> also skips an empty dictionary;
  that is a signal without a symbol, which \<open>_execute_backtest_signal\<close> leaves without
  effect, so the two are not told apart here.
\<close>

type_synonym 's strategy = "'s \<Rightarrow> market_snapshot \<Rightarrow> py_error + (signal option \<times> 's)"

fun run_loop ::
  "'s strategy \<Rightarrow> historical_data \<Rightarrow> bar list \<Rightarrow> 's \<Rightarrow> backtester
     \<Rightarrow> py_error option \<times> backtester" where
  "run_loop strategy hdata [] st bt = (None, bt)"
| "run_loop strategy hdata (row # rows) st bt =
     (let ts = timestamp row;
          bt1 = bt\<lparr>timestamps := timestamps bt @ [ts]\<rparr>
      in case prepare_market_snapshot hdata ts of
           Inl e \<Rightarrow> (Some e, bt1)
         | Inr market_snapshot \<Rightarrow>
            (case strategy st market_snapshot of
               Inl e \<Rightarrow> (Some e, bt1)
             | Inr (sg, st') \<Rightarrow>
                (case (case sg of None \<Rightarrow> (None, bt1)
                       | Some s \<Rightarrow> execute_backtest_signal s market_snapshot bt1) of
                   (Some e, bt2) \<Rightarrow> (Some e, bt2)
                 | (None, bt2) \<Rightarrow>
                     run_loop strategy hdata rows st'
                       (bt2\<lparr>equity_curve := equity_curve bt2 @
                              [calculate_portfolio_value market_snapshot bt2]\<rparr>))))"

section \<open>Metrics\<close>

text \<open>The numpy functions the metrics use, on arrays of one dimension.\<close>

definition np_diff :: "real list \<Rightarrow> real list" where
  "np_diff xs = map2 (\<lambda>a b. b - a) (butlast xs) (tl xs)"

definition np_mean :: "pyfloat list \<Rightarrow> pyfloat" where
  "np_mean xs = fdiv (fold (\<lambda>x acc. fadd acc x) xs (Fin 0)) (Fin (real (length xs)))"

definition np_std :: "pyfloat list \<Rightarrow> pyfloat" where
  "np_std xs =
     (let m = np_mean xs
      in fsqrt (np_mean (map (\<lambda>x. let d = fsub x m in fmul d d) xs)))"

fun maximum_accumulate_from :: "real \<Rightarrow> real list \<Rightarrow> real list" where
  "maximum_accumulate_from m [] = []"
| "maximum_accumulate_from m (x # xs) = max m x # maximum_accumulate_from (max m x) xs"

definition maximum_accumulate :: "real list \<Rightarrow> real list" where
  "maximum_accumulate xs =
     (case xs of [] \<Rightarrow> [] | x # ys \<Rightarrow> x # maximum_accumulate_from x ys)"

text \<open>\<open>np.min\<close> returns \<open>NaN\<close> as soon as one entry is \<open>NaN\<close>, and raises on an empty array.\<close>

definition fmin :: "pyfloat \<Rightarrow> pyfloat \<Rightarrow> pyfloat" where
  "fmin x y = (if x = NaN \<or> y = NaN then NaN else if flt y x then y else x)"

definition np_min :: "pyfloat list \<Rightarrow> py_error + pyfloat" where
  "np_min xs = (case xs of [] \<Rightarrow> Inl ValueError | x # ys \<Rightarrow> Inr (fold (\<lambda>y acc. fmin acc y) ys x))"

record backtest_result =
  r_initial_capital :: real
  r_final_value :: real
  r_total_return :: pyfloat
  r_total_return_pct :: pyfloat
  r_num_trades :: nat
  r_volatility :: pyfloat
  r_sharpe_ratio :: pyfloat
  r_max_drawdown :: pyfloat
  r_max_drawdown_pct :: pyfloat
  r_equity_curve :: "real list"
  r_timestamps :: "int list"
  r_trades :: "trade list"

definition drawdown_series :: "real list \<Rightarrow> pyfloat list" where
  "drawdown_series equity_array =
     map2 (\<lambda>e m. fdiv (Fin (e - m)) (Fin m)) equity_array (maximum_accumulate equity_array)"

definition calculate_metrics :: "backtester \<Rightarrow> py_error + backtest_result" where
  "calculate_metrics bt =
     (let equity_array = equity_curve bt;
          returns = map2 (\<lambda>d e. fdiv (Fin d) (Fin e)) (np_diff equity_array) (butlast equity_array)
      in if equity_array = [] then Inl IndexError
         else
           let final_value = last equity_array;
               total_return =
                 fdiv (Fin (final_value - initial_capital bt)) (Fin (initial_capital bt));
               volatility = (if length returns > 0 then fmul (np_std returns) (Fin (sqrt 252))
                             else Fin 0);
               sharpe_ratio = (if fgt volatility (Fin 0)
                               then fdiv (fmul (np_mean returns) (Fin 252)) volatility
                               else Fin 0)
           in case np_min (drawdown_series equity_array) of
                Inl e \<Rightarrow> Inl e
              | Inr max_drawdown \<Rightarrow>
                 Inr \<lparr>r_initial_capital = initial_capital bt,
                      r_final_value = final_value,
                      r_total_return = total_return,
                      r_total_return_pct = fmul total_return (Fin 100),
                      r_num_trades = length (trades bt),
                      r_volatility = volatility,
                      r_sharpe_ratio = sharpe_ratio,
                      r_max_drawdown = max_drawdown,
                      r_max_drawdown_pct = fmul max_drawdown (Fin 100),
                      r_equity_curve = equity_curve bt,
                      r_timestamps = timestamps bt,
                      r_trades = trades bt\<rparr>)"

section \<open>Running a backtest\<close>

text \<open>
  The frame the loop iterates: the frame of the first key of the historical data
  (\<open>IndexError\<close> when there is none), cut to the date range.  A \<open>datetime\<close> is always
  true, so \<open>if start_date:\<close> tests for \<open>None\<close>; each bound that is given reads the
  timestamp column.
\<close>

definition date_filter :: "int option \<Rightarrow> int option \<Rightarrow> dataframe \<Rightarrow> py_error + dataframe" where
  "date_filter start_date end_date df =
     (case (case start_date of None \<Rightarrow> Inr df
            | Some sd \<Rightarrow> select_by_timestamp (\<lambda>t. t \<ge> sd) df) of
        Inl e \<Rightarrow> Inl e
      | Inr df1 \<Rightarrow>
         (case end_date of None \<Rightarrow> Inr df1
          | Some ed \<Rightarrow> select_by_timestamp (\<lambda>t. t \<le> ed) df1))"

definition primary_frame ::
  "historical_data \<Rightarrow> int option \<Rightarrow> int option \<Rightarrow> py_error + dataframe" where
  "primary_frame hdata start_date end_date =
     (case hdata of
        [] \<Rightarrow> Inl IndexError
      | (primary_symbol, df) # _ \<Rightarrow> date_filter start_date end_date df)"

definition run ::
  "'s strategy \<Rightarrow> 's \<Rightarrow> historical_data \<Rightarrow> int option \<Rightarrow> int option \<Rightarrow> backtester
     \<Rightarrow> (py_error + backtest_result) \<times> backtester" where
  "run strategy st hdata start_date end_date bt =
     (let bt0 = reset bt
      in case primary_frame hdata start_date end_date of
           Inl e \<Rightarrow> (Inl e, bt0)
         | Inr df \<Rightarrow>
            (case run_loop strategy hdata (frame_rows df) st bt0 of
               (Some e, bt1) \<Rightarrow> (Inl e, bt1)
             | (None, bt1) \<Rightarrow> (calculate_metrics bt1, bt1)))"

section \<open>Relative Strength Index\<close>

text \<open>
  The pandas operations \<open>calculate_rsi\<close> uses, on a series of finite prices.
  \<open>diff\<close> leaves \<open>NaN\<close> in the first place; \<open>where(cond, 0)\<close> keeps an entry where the
  condition holds and puts \<open>0\<close> elsewhere (also at a \<open>NaN\<close>, where every comparison is
  false); \<open>rolling(window).mean()\<close> is \<open>NaN\<close> until the window holds \<open>window\<close> observations
  that are not \<open>NaN\<close>, and for a window of 0.  Negating the loss series turns its zeros
  into negative zeros; a gain above zero over a zero of either sign is an infinity, and
  \<open>100 / (1 + RS)\<close> is a zero for both, so the untracked sign does not reach the result.
\<close>

definition series_diff :: "real list \<Rightarrow> pyfloat list" where
  "series_diff xs =
     (case xs of [] \<Rightarrow> [] | x # ys \<Rightarrow> NaN # map2 (\<lambda>a b. Fin (b - a)) (butlast xs) ys)"

definition series_where :: "(pyfloat \<Rightarrow> bool) \<Rightarrow> pyfloat \<Rightarrow> pyfloat list \<Rightarrow> pyfloat list" where
  "series_where cond other xs = map (\<lambda>x. if cond x then x else other) xs"

definition rolling_mean_at :: "nat \<Rightarrow> pyfloat list \<Rightarrow> nat \<Rightarrow> pyfloat" where
  "rolling_mean_at window xs i =
     (let win = drop (Suc i - window) (take (Suc i) xs);
          obs = filter (\<lambda>x. x \<noteq> NaN) win
      in if window = 0 \<or> length obs < window then NaN
         else fdiv (fold (\<lambda>x acc. fadd acc x) obs (Fin 0)) (Fin (real (length obs))))"

definition rolling_mean :: "nat \<Rightarrow> pyfloat list \<Rightarrow> pyfloat list" where
  "rolling_mean window xs = map (rolling_mean_at window xs) [0..<length xs]"

definition rsi_gain :: "real list \<Rightarrow> nat \<Rightarrow> pyfloat list" where
  "rsi_gain data period =
     rolling_mean period (series_where (\<lambda>d. fgt d (Fin 0)) (Fin 0) (series_diff data))"

definition rsi_loss :: "real list \<Rightarrow> nat \<Rightarrow> pyfloat list" where
  "rsi_loss data period =
     rolling_mean period
       (map fneg (series_where (\<lambda>d. flt d (Fin 0)) (Fin 0) (series_diff data)))"

definition calculate_rsi :: "real list \<Rightarrow> nat \<Rightarrow> pyfloat list" where
  "calculate_rsi data period =
     (let gain = rsi_gain data period;
          loss = rsi_loss data period;
          rs = map2 fdiv gain loss
      in map (\<lambda>r. fsub (Fin 100) (fdiv (Fin 100) (fadd (Fin 1) r))) rs)"

section \<open>Predicates and example inputs\<close>

text \<open>Every symbol present in the positions map has a quantity above zero.\<close>

definition positions_positive :: "backtester \<Rightarrow> bool" where
  "positions_positive bt = (\<forall>s q. map_of (positions bt) s = Some q \<longrightarrow> 0 < q)"

text \<open>
  The engine of the unit tests (capital 100000, commission 0.001, slippage 0.0005) after
  the first timestamp of a run has been recorded, and a snapshot that quotes one symbol
  at 50000.
\<close>

definition ex_engine :: backtester where
  "ex_engine = (init 100000 (1 / 1000) (5 / 10000))\<lparr>timestamps := [1]\<rparr>"

definition ex_snapshot :: market_snapshot where
  "ex_snapshot =
     [(''BTC/USDT'', \<lparr>ticker = \<lparr>last_price = 50000, bid = 49000, ask = 51000,
                                  tick_volume = 10\<rparr>, ohlcv = Frame []\<rparr>)]"

definition ex_sell :: "real \<Rightarrow> signal" where
  "ex_sell q = \<lparr>action = Some ''sell'', symbol = Some ''BTC/USDT'', amount = Some q\<rparr>"

definition ex_buy :: "real \<Rightarrow> signal" where
  "ex_buy q = \<lparr>action = Some ''buy'', symbol = Some ''BTC/USDT'', amount = Some q\<rparr>"

text \<open>An engine with 10 in cash that holds one unit of a symbol quoted at -100.\<close>

definition ex_negative_snapshot :: market_snapshot where
  "ex_negative_snapshot =
     [(''BTC/USDT'', \<lparr>ticker = \<lparr>last_price = - 100, bid = - 101, ask = - 99,
                                  tick_volume = 10\<rparr>, ohlcv = Frame []\<rparr>)]"

definition ex_small_engine :: backtester where
  "ex_small_engine = ex_engine\<lparr>capital := 10, positions := [(''BTC/USDT'', 1)]\<rparr>"

text \<open>The value one entry of the positions map adds to the portfolio under a snapshot.\<close>

definition position_value :: "market_snapshot \<Rightarrow> string \<times> real \<Rightarrow> real" where
  "position_value market_data p =
     (case map_of market_data (fst p) of
        Some entry \<Rightarrow> last_price (ticker entry) * snd p
      | None \<Rightarrow> 0)"

text \<open>An engine holding two symbols, of which \<open>ex_snapshot\<close> quotes only the first.\<close>

definition ex_two_positions :: backtester where
  "ex_two_positions =
     ex_engine\<lparr>capital := 50000, positions := [(''BTC/USDT'', 1), (''ETH/USDT'', 3)]\<rparr>"

text \<open>The bars of the primary instrument that a run iterates.\<close>

definition primary_bars :: "historical_data \<Rightarrow> int option \<Rightarrow> int option \<Rightarrow> bar list" where
  "primary_bars hdata start_date end_date =
     (case primary_frame hdata start_date end_date of
        Inl e \<Rightarrow> []
      | Inr df \<Rightarrow> frame_rows df)"

text \<open>
  A strategy that buys 0.1 units on the first tick only (its state counts the ticks), and
  a dataset of two bars for one symbol.
\<close>

fun ex_strategy :: "nat strategy" where
  "ex_strategy n market_data = Inr (if n = 0 then Some (ex_buy (1 / 10)) else None, Suc n)"

definition ex_bar :: "int \<Rightarrow> real \<Rightarrow> bar" where
  "ex_bar t c = \<lparr>timestamp = t, open_price = c, high = c + 1000, low = c - 1000, close = c,
                 volume = 10\<rparr>"

definition ex_hdata :: historical_data where
  "ex_hdata = [(''BTC/USDT'', Frame [ex_bar 1 50000, ex_bar 2 51000])]"

text \<open>
  What the snapshot holds for the rows of one frame at a cursor: the entry of
  \<open>snapshot_step\<close>, or nothing when no bar is at or before the cursor.
\<close>

definition bar_ticker :: "bar \<Rightarrow> ticker" where
  "bar_ticker b = \<lparr>last_price = close b, bid = low b, ask = high b, tick_volume = volume b\<rparr>"

definition snapshot_entry :: "bar list \<Rightarrow> int \<Rightarrow> market_entry option" where
  "snapshot_entry rows ts =
     (let current_data = filter (\<lambda>b. timestamp b \<le> ts) rows
      in if current_data \<noteq> [] then
           Some \<lparr>ticker = bar_ticker (last current_data), ohlcv = Frame current_data\<rparr>
         else None)"

text \<open>A dataset of two symbols; the second has no bar before timestamp 3.\<close>

definition ex_hdata2 :: historical_data where
  "ex_hdata2 = [(''BTC/USDT'', Frame [ex_bar 1 50000, ex_bar 2 51000, ex_bar 3 52000]),
                (''ETH/USDT'', Frame [ex_bar 3 3000])]"

text \<open>
  The drawdown as the specification words it: the running maximum of the equity curve
  at an index, the relative shortfall from it, and the least shortfall over all indices.
\<close>

definition running_max :: "real list \<Rightarrow> nat \<Rightarrow> real" where
  "running_max equity i = Max (set (take (Suc i) equity))"

definition spec_drawdown :: "real list \<Rightarrow> nat \<Rightarrow> real" where
  "spec_drawdown equity i = (equity ! i - running_max equity i) / running_max equity i"

definition spec_max_drawdown :: "real list \<Rightarrow> real" where
  "spec_max_drawdown equity = Min (set (map (spec_drawdown equity) [0..<length equity]))"

text \<open>An engine whose recorded equity curve is the one of the drawdown example.\<close>

definition ex_curve_engine :: backtester where
  "ex_curve_engine = ex_engine\<lparr>equity_curve := [100000, 110000, 90000, 95000]\<rparr>"

text \<open>A dataset whose primary instrument has no bars.\<close>

definition ex_empty_hdata :: historical_data where
  "ex_empty_hdata = [(''BTC/USDT'', Frame [])]"

text \<open>
  Datasets with the frame without columns: as the only instrument, and beside an
  instrument that has bars.
\<close>

definition ex_columnless_hdata :: historical_data where
  "ex_columnless_hdata = [(''BTC/USDT'', Columnless)]"

definition ex_mixed_hdata :: historical_data where
  "ex_mixed_hdata = [(''BTC/USDT'', Frame [ex_bar 1 50000, ex_bar 2 51000]),
                     (''ETH/USDT'', Columnless)]"

text \<open>A finite float that is not negative.\<close>

definition nonneg_fin :: "pyfloat \<Rightarrow> bool" where
  "nonneg_fin x = (case x of Fin a \<Rightarrow> 0 \<le> a | _ \<Rightarrow> False)"

section \<open>Properties of signal execution\<close>

lemma append_trade_capital: "capital (snd (append_trade bt mk)) = capital bt"
  by (simp add: append_trade_def)

lemma append_trade_positions: "positions (snd (append_trade bt mk)) = positions bt"
  by (simp add: append_trade_def)

lemma sell_net_proceeds_nonneg:
  assumes "0 \<le> price" "0 \<le> amt" "slippage bt \<le> 1" "commission bt \<le> 1"
  shows "0 \<le> sell_net_proceeds bt price amt"
proof -
  have "sell_net_proceeds bt price amt = (price * (1 - slippage bt) * amt) * (1 - commission bt)"
    by (simp add: sell_net_proceeds_def sell_proceeds_def sell_execution_price_def algebra_simps)
  moreover have "0 \<le> price * (1 - slippage bt) * amt" using assms by simp
  ultimately show ?thesis using assms by simp
qed

text \<open>
  C5.  A sell signal whose symbol has no held position, or a held quantity below the
  signal amount, is dropped: the call returns without an exception and the engine (cash,
  positions map, trade log and all other fields) is the one it was given; no trade
  record is appended.
\<close>

theorem sell_without_position_dropped:
  assumes act: "action sg = Some ''sell''"
    and ins: "\<And>s held. symbol sg = Some s \<Longrightarrow> map_of (positions bt) s = Some held
                \<Longrightarrow> held < signal_amount sg"
  shows "execute_backtest_signal sg market_data bt = (None, bt)"
proof (cases "symbol sg")
  case None
  then show ?thesis by (simp add: execute_backtest_signal_def)
next
  case (Some s)
  show ?thesis
  proof (cases "map_of (positions bt) s")
    case None
    with Some act show ?thesis
      by (simp add: execute_backtest_signal_def Let_def split: option.splits)
  next
    case (Some held)
    with ins[OF \<open>symbol sg = Some s\<close> Some] have "\<not> signal_amount sg \<le> held" by simp
    with Some \<open>symbol sg = Some s\<close> act show ?thesis
      by (simp add: execute_backtest_signal_def Let_def split: option.splits)
  qed
qed

theorem sell_without_position_dropped_witness:
  "execute_backtest_signal (ex_sell (1 / 10)) ex_snapshot ex_engine = (None, ex_engine) \<and>
   execute_backtest_signal (ex_sell 2) ex_snapshot ex_small_engine = (None, ex_small_engine)"
  using sell_without_position_dropped [of "ex_sell (1 / 10)" ex_engine ex_snapshot]
    sell_without_position_dropped [of "ex_sell 2" ex_small_engine ex_snapshot]
  by (simp add: ex_sell_def ex_engine_def ex_small_engine_def init_def reset_def signal_amount_def)

text \<open>
  C2, as stated, fails for sell fills: with cash 10, one unit held and a reference price
  of -100, selling the unit at the default rates leaves the cash below zero.
\<close>

theorem sell_can_drive_cash_negative:
  "0 \<le> capital ex_small_engine \<and>
   capital (snd (execute_backtest_signal (ex_sell 1) ex_negative_snapshot ex_small_engine)) < 0"
  by (simp add: execute_backtest_signal_def ex_sell_def ex_negative_snapshot_def
      ex_small_engine_def ex_engine_def init_def reset_def signal_amount_def
      sell_net_proceeds_def sell_proceeds_def sell_execution_price_def append_trade_def)

text \<open>
  C2, amended.  From a state with cash at least 0, every signal leaves cash at least 0,
  without any condition for a buy signal (a buy whose total cost exceeds the cash is
  dropped and leaves the engine as it was), and for a sell signal when the reference
  price and the amount are not negative and the slippage and commission rates are at
  most 1.
\<close>

theorem cash_stays_nonnegative:
  assumes cash: "0 \<le> capital bt"
    and sell: "action sg = Some ''sell'' \<Longrightarrow>
        0 \<le> signal_amount sg \<and> slippage bt \<le> 1 \<and> commission bt \<le> 1 \<and>
        (\<forall>s e. symbol sg = Some s \<and> map_of market_data s = Some e
           \<longrightarrow> 0 \<le> last_price (ticker e))"
  shows "0 \<le> capital (snd (execute_backtest_signal sg market_data bt)) \<and>
         (\<forall>s e. action sg = Some ''buy'' \<and> symbol sg = Some s \<and> map_of market_data s = Some e \<and>
            capital bt < buy_total_cost bt (last_price (ticker e)) (signal_amount sg)
            \<longrightarrow> execute_backtest_signal sg market_data bt = (None, bt))"
proof
  show "0 \<le> capital (snd (execute_backtest_signal sg market_data bt))"
  proof (cases "symbol sg")
    case None
    then show ?thesis using cash by (simp add: execute_backtest_signal_def)
  next
    case (Some s)
    note smb = this
    show ?thesis
    proof (cases "map_of market_data s")
      case None
      then show ?thesis using cash smb by (simp add: execute_backtest_signal_def)
    next
      case (Some e)
      note ent = this
      show ?thesis
      proof (cases "action sg = Some ''buy''")
        case True
        then show ?thesis using cash smb ent
          by (simp add: execute_backtest_signal_def Let_def append_trade_capital)
      next
        case nb: False
        show ?thesis
        proof (cases "action sg = Some ''sell''")
          case True
          with sell smb ent have
            "0 \<le> sell_net_proceeds bt (last_price (ticker e)) (signal_amount sg)"
            by (intro sell_net_proceeds_nonneg) auto
          then show ?thesis using cash smb ent True
            by (simp add: execute_backtest_signal_def Let_def append_trade_capital
                  split: option.splits)
        next
          case False
          then show ?thesis using cash smb ent nb
            by (simp add: execute_backtest_signal_def Let_def)
        qed
      qed
    qed
  qed
next
  show "\<forall>s e. action sg = Some ''buy'' \<and> symbol sg = Some s \<and> map_of market_data s = Some e \<and>
            capital bt < buy_total_cost bt (last_price (ticker e)) (signal_amount sg)
            \<longrightarrow> execute_backtest_signal sg market_data bt = (None, bt)"
    by (simp add: execute_backtest_signal_def Let_def)
qed

theorem cash_stays_nonnegative_witness:
  "0 \<le> capital (snd (execute_backtest_signal (ex_sell 1) ex_snapshot ex_small_engine)) \<and>
   capital (snd (execute_backtest_signal (ex_sell 1) ex_snapshot ex_small_engine)) \<noteq> 10 \<and>
   execute_backtest_signal (ex_buy 1) ex_snapshot ex_small_engine = (None, ex_small_engine)"
  using cash_stays_nonnegative [of ex_small_engine "ex_sell 1" ex_snapshot]
    cash_stays_nonnegative [of ex_small_engine "ex_buy 1" ex_snapshot]
  by (simp add: ex_sell_def ex_buy_def ex_snapshot_def ex_small_engine_def ex_engine_def init_def
      reset_def signal_amount_def execute_backtest_signal_def append_trade_def
      sell_net_proceeds_def sell_proceeds_def sell_execution_price_def
      buy_total_cost_def buy_cost_def buy_commission_cost_def buy_execution_price_def)

text \<open>
  C4.  The positions map holds only quantities above zero after construction and after
  reset, and executing a signal with an amount above zero keeps it so: no held quantity
  is below zero afterwards, and a sell of exactly the held quantity removes the entry.
\<close>

theorem positions_stay_positive:
  "positions_positive (init ic com slip) \<and>
   positions_positive (reset bt0) \<and>
   (positions_positive bt \<and> 0 < signal_amount sg \<longrightarrow>
      positions_positive (snd (execute_backtest_signal sg market_data bt)) \<and>
      (\<forall>s. 0 \<le> positions_get (snd (execute_backtest_signal sg market_data bt)) s) \<and>
      (\<forall>s e. action sg = Some ''sell'' \<and> symbol sg = Some s \<and> map_of market_data s = Some e \<and>
         map_of (positions bt) s = Some (signal_amount sg)
         \<longrightarrow> map_of (positions (snd (execute_backtest_signal sg market_data bt))) s = None))"
proof (intro conjI impI)
  show "positions_positive (init ic com slip)"
    by (simp add: positions_positive_def init_def reset_def)
  show "positions_positive (reset bt0)"
    by (simp add: positions_positive_def reset_def)
next
  assume h: "positions_positive bt \<and> 0 < signal_amount sg"
  then have inv: "positions_positive bt" and amt: "0 < signal_amount sg" by simp_all
  show pp: "positions_positive (snd (execute_backtest_signal sg market_data bt))"
  proof (cases "symbol sg")
    case None
    then show ?thesis using inv by (simp add: execute_backtest_signal_def)
  next
    case (Some s)
    note smb = this
    show ?thesis
    proof (cases "map_of market_data s")
      case None
      then show ?thesis using inv smb by (simp add: execute_backtest_signal_def)
    next
      case (Some e)
      note ent = this
      have held_pos: "0 \<le> positions_get bt s"
        using inv
        by (auto simp: positions_positive_def positions_get_def split: option.splits
            intro: less_imp_le)
      show ?thesis
      proof (cases "action sg = Some ''buy''")
        case True
        have "positions_positive (bt\<lparr>capital := c,
                positions := AList.update s (positions_get bt s + signal_amount sg)
                  (positions bt)\<rparr>)" for c
          using inv held_pos amt by (auto simp: positions_positive_def update_conv')
        then show ?thesis using inv smb ent True
          by (simp add: execute_backtest_signal_def Let_def append_trade_positions
                positions_positive_def)
      next
        case nb: False
        show ?thesis
        proof (cases "action sg = Some ''sell''")
          case True
          note sl = this
          show ?thesis
          proof (cases "map_of (positions bt) s")
            case None
            then show ?thesis using inv smb ent sl
              by (simp add: execute_backtest_signal_def Let_def)
          next
            case (Some held)
            show ?thesis
            proof (cases "signal_amount sg \<le> held")
              case False
              then show ?thesis using inv smb ent sl Some
                by (simp add: execute_backtest_signal_def Let_def)
            next
              case le: True
              show ?thesis
              proof (cases "held - signal_amount sg = 0")
                case True
                then show ?thesis using inv smb ent sl Some le
                  by (auto simp: execute_backtest_signal_def Let_def append_trade_positions
                        positions_positive_def update_conv' delete_conv')
              next
                case False
                with le have "0 < held - signal_amount sg" by simp
                then show ?thesis using False inv smb ent sl Some le
                  by (auto simp: execute_backtest_signal_def Let_def append_trade_positions
                        positions_positive_def update_conv')
              qed
            qed
          qed
        next
          case False
          then show ?thesis using inv smb ent nb
            by (simp add: execute_backtest_signal_def Let_def)
        qed
      qed
    qed
  qed
  show "\<forall>s. 0 \<le> positions_get (snd (execute_backtest_signal sg market_data bt)) s"
    using pp
    by (auto simp: positions_positive_def positions_get_def split: option.splits
        intro: less_imp_le)
  show "\<forall>s e. action sg = Some ''sell'' \<and> symbol sg = Some s \<and> map_of market_data s = Some e \<and>
         map_of (positions bt) s = Some (signal_amount sg)
         \<longrightarrow> map_of (positions (snd (execute_backtest_signal sg market_data bt))) s = None"
    by (auto simp: execute_backtest_signal_def Let_def append_trade_positions delete_conv')
qed

theorem positions_stay_positive_witness:
  "positions_positive ex_small_engine \<and>
   positions_positive (snd (execute_backtest_signal (ex_sell 1) ex_snapshot ex_small_engine)) \<and>
   positions (snd (execute_backtest_signal (ex_sell 1) ex_snapshot ex_small_engine)) = [] \<and>
   positions_positive (snd (execute_backtest_signal (ex_buy (1 / 10)) ex_snapshot ex_engine)) \<and>
   positions (snd (execute_backtest_signal (ex_buy (1 / 10)) ex_snapshot ex_engine))
     = [(''BTC/USDT'', 1 / 10)]"
proof -
  have p: "positions_positive ex_small_engine"
    by (simp add: positions_positive_def ex_small_engine_def)
  have q: "positions_positive ex_engine"
    by (simp add: positions_positive_def ex_engine_def init_def reset_def)
  have a: "0 < signal_amount (ex_sell 1)" "0 < signal_amount (ex_buy (1 / 10))"
    by (simp_all add: signal_amount_def ex_sell_def ex_buy_def)
  show ?thesis
    using p q a
      positions_stay_positive [of _ _ _ _ ex_small_engine "ex_sell 1" ex_snapshot]
      positions_stay_positive [of _ _ _ _ ex_engine "ex_buy (1 / 10)" ex_snapshot]
    by (simp add: ex_sell_def ex_buy_def ex_snapshot_def ex_small_engine_def ex_engine_def init_def
      reset_def signal_amount_def execute_backtest_signal_def append_trade_def positions_get_def Let_def
      sell_net_proceeds_def sell_proceeds_def sell_execution_price_def
      buy_total_cost_def buy_cost_def buy_commission_cost_def buy_execution_price_def)
qed

text \<open>
  C3.  With initial capital 100000, commission rate 0.001 and slippage rate 0.0005, a
  single buy of 0.1 units at reference price 50000 has execution price 50025, cost
  5002.5, commission 5.0025 and total cost 5007.5025; it leaves cash 94992.4975 and a
  position of exactly 0.1 in the bought symbol, and records the trade.
\<close>

theorem single_buy_example:
  "buy_execution_price ex_engine 50000 = 50025 \<and>
   buy_cost ex_engine 50000 (1 / 10) = 5002.5 \<and>
   buy_commission_cost ex_engine 50000 (1 / 10) = 5.0025 \<and>
   buy_total_cost ex_engine 50000 (1 / 10) = 5007.5025 \<and>
   initial_capital ex_engine = 100000 \<and> capital ex_engine = 100000 \<and>
   commission ex_engine = 0.001 \<and> slippage ex_engine = 0.0005 \<and>
   execute_backtest_signal (ex_buy 0.1) ex_snapshot ex_engine =
     (None, ex_engine\<lparr>capital := 94992.4975, positions := [(''BTC/USDT'', 0.1)],
        trades := [\<lparr>trade_timestamp = 1, trade_action = ''buy'', trade_symbol = ''BTC/USDT'',
                    trade_amount = 0.1, trade_price = 50025, trade_cost = Some 5007.5025,
                    trade_proceeds = None\<rparr>]\<rparr>)"
  by (simp add: ex_buy_def ex_snapshot_def ex_engine_def init_def
      reset_def signal_amount_def execute_backtest_signal_def append_trade_def positions_get_def
      buy_total_cost_def buy_cost_def buy_commission_cost_def buy_execution_price_def Let_def)

section \<open>Properties of the portfolio value\<close>

lemma fold_portfolio:
  "fold (\<lambda>(smb, amt) total_value.
        case map_of market_data smb of
          Some entry \<Rightarrow> total_value + last_price (ticker entry) * amt
        | None \<Rightarrow> total_value) ps acc
   = acc + sum_list (map (position_value market_data) ps)"
  by (induction ps arbitrary: acc)
     (auto simp: position_value_def split: option.splits)

lemma portfolio_value_sum_list:
  "calculate_portfolio_value market_data bt
     = capital bt + sum_list (map (position_value market_data) (positions bt))"
  by (simp add: calculate_portfolio_value_def fold_portfolio)

lemma sum_list_present:
  "sum_list (map (position_value md) ps)
   = sum_list (map (position_value md) (filter (\<lambda>p. map_of md (fst p) \<noteq> None) ps))"
  by (induction ps) (auto simp: position_value_def)

lemma distinct_keys_sum:
  assumes d: "distinct (map fst ps)"
  shows "sum_list (map (position_value md) (filter (\<lambda>p. map_of md (fst p) \<noteq> None) ps))
    = (\<Sum>s \<in> dom (map_of ps) \<inter> dom (map_of md).
         last_price (ticker (the (map_of md s))) * the (map_of ps s))"
proof -
  let ?A = "set (filter (\<lambda>p. map_of md (fst p) \<noteq> None) ps)"
  let ?h = "\<lambda>s. last_price (ticker (the (map_of md s))) * the (map_of ps s)"
  have dps: "distinct ps" using d by (rule distinct_map[THEN iffD1, THEN conjunct1])
  have inj: "inj_on fst (set ps)" using d by (simp add: distinct_map)
  then have injA: "inj_on fst ?A" by (rule inj_on_subset) auto
  have img: "fst ` ?A = dom (map_of ps) \<inter> dom (map_of md)"
  proof -
    have "fst ` ?A = fst ` set ps \<inter> dom (map_of md)"
      by (auto simp: image_iff dom_def)
    then show ?thesis by (simp add: dom_map_of_conv_image_fst)
  qed
  have eq: "position_value md p = ?h (fst p)" if "p \<in> ?A" for p
  proof -
    from that have "p \<in> set ps" and pr: "map_of md (fst p) \<noteq> None" by auto
    with d have "map_of ps (fst p) = Some (snd p)" by (cases p) simp
    then show ?thesis using pr by (auto simp: position_value_def)
  qed
  have "sum_list (map (position_value md) (filter (\<lambda>p. map_of md (fst p) \<noteq> None) ps))
        = sum (position_value md) ?A"
    using dps by (simp add: sum_list_distinct_conv_sum_set)
  also have "\<dots> = sum (?h \<circ> fst) ?A" using eq by (intro sum.cong) auto
  also have "\<dots> = sum ?h (fst ` ?A)" using injA by (simp add: sum.reindex)
  also have "\<dots> = sum ?h (dom (map_of ps) \<inter> dom (map_of md))" by (simp only: img)
  finally show ?thesis .
qed

text \<open>
  C10.  The portfolio value is the cash plus the sum, over exactly the held symbols that
  the snapshot quotes, of quantity times the snapshot's last price; held symbols that
  the snapshot does not quote add nothing (the value is that of the engine without them),
  and the function has no failing branch.
\<close>

theorem portfolio_value_is_cash_plus_quoted_positions:
  assumes "distinct (map fst (positions bt))"
  shows "calculate_portfolio_value market_data bt =
           capital bt +
           (\<Sum>s \<in> dom (map_of (positions bt)) \<inter> dom (map_of market_data).
              last_price (ticker (the (map_of market_data s))) * the (map_of (positions bt) s))
         \<and> calculate_portfolio_value market_data bt =
             calculate_portfolio_value market_data
               (bt\<lparr>positions := filter (\<lambda>p. map_of market_data (fst p) \<noteq> None) (positions bt)\<rparr>)"
proof
  show "calculate_portfolio_value market_data bt =
           capital bt +
           (\<Sum>s \<in> dom (map_of (positions bt)) \<inter> dom (map_of market_data).
              last_price (ticker (the (map_of market_data s))) * the (map_of (positions bt) s))"
    using distinct_keys_sum[OF assms, of market_data] sum_list_present[of market_data "positions bt"]
    by (simp add: portfolio_value_sum_list)
  show "calculate_portfolio_value market_data bt =
             calculate_portfolio_value market_data
               (bt\<lparr>positions := filter (\<lambda>p. map_of market_data (fst p) \<noteq> None) (positions bt)\<rparr>)"
    using sum_list_present[of market_data "positions bt"]
    by (simp add: portfolio_value_sum_list)
qed

theorem portfolio_value_witness:
  "calculate_portfolio_value ex_snapshot ex_two_positions = 100000"
  using portfolio_value_is_cash_plus_quoted_positions [of ex_two_positions ex_snapshot]
  by (simp add: ex_two_positions_def ex_snapshot_def ex_engine_def)

section \<open>Properties of the market snapshot\<close>

lemma select_by_timestamp_Frame:
  "select_by_timestamp cond (Frame rows) = Inr (Frame (filter (\<lambda>b. cond (timestamp b)) rows))"
  by (simp add: select_by_timestamp_def)

lemma snapshot_step_Columnless: "snapshot_step ts (k, Columnless) acc = Inl KeyError"
  by (simp add: snapshot_step_def select_by_timestamp_def)

lemma snapshot_step_Frame:
  "\<exists>acc'. snapshot_step ts (k, Frame rows) acc = Inr acc' \<and>
     (\<forall>s. map_of acc' s =
        (if s = k then (case snapshot_entry rows ts of None \<Rightarrow> map_of acc s | Some e \<Rightarrow> Some e)
         else map_of acc s))"
  by (simp add: snapshot_step_def select_by_timestamp_Frame snapshot_entry_def bar_ticker_def
      frame_rows_def Let_def update_conv')

lemma snapshot_loop_columnless:
  "Columnless \<in> snd ` set hdata \<Longrightarrow> snapshot_loop ts hdata acc = Inl KeyError"
proof (induction hdata arbitrary: acc)
  case Nil
  then show ?case by simp
next
  case (Cons p hdata)
  obtain k df where p: "p = (k, df)" by (cases p)
  show ?case
  proof (cases df)
    case Columnless
    with p show ?thesis by (simp add: snapshot_step_Columnless)
  next
    case (Frame rows)
    with Cons.prems p have "Columnless \<in> snd ` set hdata" by auto
    moreover from snapshot_step_Frame[of ts k rows acc] obtain acc' where
      "snapshot_step ts (k, Frame rows) acc = Inr acc'" by blast
    ultimately show ?thesis using p Frame by (simp add: Cons.IH)
  qed
qed

lemma snapshot_loop_returns:
  "Columnless \<notin> snd ` set hdata \<Longrightarrow> \<exists>snapshot. snapshot_loop ts hdata acc = Inr snapshot"
proof (induction hdata arbitrary: acc)
  case Nil
  then show ?case by simp
next
  case (Cons p hdata)
  obtain k df where p: "p = (k, df)" by (cases p)
  from Cons.prems p obtain rows where df: "df = Frame rows" by (cases df) auto
  from snapshot_step_Frame[of ts k rows acc] obtain acc' where
    "snapshot_step ts (k, Frame rows) acc = Inr acc'" by blast
  moreover from Cons.prems have "Columnless \<notin> snd ` set hdata" by simp
  ultimately show ?case using Cons.IH[of acc'] p df by simp
qed

lemma snapshot_loop_lookup:
  assumes "distinct (map fst hdata)" and "Columnless \<notin> snd ` set hdata"
  shows "\<exists>snapshot. snapshot_loop ts hdata acc = Inr snapshot \<and>
     (\<forall>s. map_of snapshot s =
        (case map_of hdata s of
           None \<Rightarrow> map_of acc s
         | Some df \<Rightarrow> (case snapshot_entry (frame_rows df) ts of
                         None \<Rightarrow> map_of acc s | Some e \<Rightarrow> Some e)))"
  using assms
proof (induction hdata arbitrary: acc)
  case Nil
  then show ?case by simp
next
  case (Cons p hdata)
  obtain k df where p: "p = (k, df)" by (cases p)
  from Cons.prems p obtain rows where df: "df = Frame rows" by (cases df) auto
  from Cons.prems p have nk: "map_of hdata k = None" and d: "distinct (map fst hdata)"
    and c: "Columnless \<notin> snd ` set hdata"
    by (auto simp: map_of_eq_None_iff)
  from snapshot_step_Frame[of ts k rows acc] obtain acc' where
    st: "snapshot_step ts (k, Frame rows) acc = Inr acc'"
    and lk: "\<forall>s. map_of acc' s =
        (if s = k then (case snapshot_entry rows ts of None \<Rightarrow> map_of acc s | Some e \<Rightarrow> Some e)
         else map_of acc s)"
    by blast
  from Cons.IH[OF d c, of acc'] obtain snapshot where
    lp: "snapshot_loop ts hdata acc' = Inr snapshot"
    and sl: "\<forall>s. map_of snapshot s =
        (case map_of hdata s of
           None \<Rightarrow> map_of acc' s
         | Some df \<Rightarrow> (case snapshot_entry (frame_rows df) ts of
                         None \<Rightarrow> map_of acc' s | Some e \<Rightarrow> Some e))"
    by blast
  have "snapshot_loop ts (p # hdata) acc = Inr snapshot"
    using p df st lp by simp
  moreover have "map_of snapshot s =
        (case map_of (p # hdata) s of
           None \<Rightarrow> map_of acc s
         | Some df \<Rightarrow> (case snapshot_entry (frame_rows df) ts of
                         None \<Rightarrow> map_of acc s | Some e \<Rightarrow> Some e))" for s
    using sl[rule_format, of s] lk[rule_format, of s] nk p df
    by (auto simp: frame_rows_def split: option.splits)
  ultimately show ?case by blast
qed

lemma sorted_le_last: "sorted xs \<Longrightarrow> x \<in> set xs \<Longrightarrow> x \<le> last (xs :: int list)"
  by (induction xs) auto

lemma snapshot_lookup:
  assumes "distinct (map fst hdata)" and "Columnless \<notin> snd ` set hdata"
  shows "\<exists>snapshot. prepare_market_snapshot hdata ts = Inr snapshot \<and>
     (\<forall>s. map_of snapshot s =
        (case map_of hdata s of None \<Rightarrow> None
         | Some df \<Rightarrow> snapshot_entry (frame_rows df) ts))"
proof -
  from snapshot_loop_lookup[OF assms, of ts "[]"] obtain snapshot where
    "snapshot_loop ts hdata [] = Inr snapshot"
    and "\<forall>s. map_of snapshot s =
        (case map_of hdata s of
           None \<Rightarrow> map_of [] s
         | Some df \<Rightarrow> (case snapshot_entry (frame_rows df) ts of
                         None \<Rightarrow> map_of [] s | Some e \<Rightarrow> Some e))"
    by blast
  then show ?thesis
    unfolding prepare_market_snapshot_def
    by (intro exI[of _ snapshot]) (auto split: option.splits)
qed

lemma prepare_market_snapshot_columnless:
  "Columnless \<in> snd ` set hdata \<Longrightarrow> prepare_market_snapshot hdata ts = Inl KeyError"
  by (simp add: prepare_market_snapshot_def snapshot_loop_columnless)

lemma last_filter_most_recent:
  assumes srt: "sorted (map timestamp df)"
    and ne: "filter (\<lambda>b. timestamp b \<le> ts) df \<noteq> []"
  shows "last (filter (\<lambda>b. timestamp b \<le> ts) df) \<in> set df \<and>
         timestamp (last (filter (\<lambda>b. timestamp b \<le> ts) df)) \<le> ts \<and>
         (\<forall>b' \<in> set df. timestamp b' \<le> ts \<longrightarrow>
            timestamp b' \<le> timestamp (last (filter (\<lambda>b. timestamp b \<le> ts) df)))"
proof -
  let ?cur = "filter (\<lambda>b. timestamp b \<le> ts) df"
  have mem: "last ?cur \<in> set ?cur" using ne by (rule last_in_set)
  have s2: "sorted (map timestamp ?cur)" using srt by (rule sorted_filter)
  have mx: "timestamp b' \<le> timestamp (last ?cur)" if "b' \<in> set df" "timestamp b' \<le> ts" for b'
  proof -
    from that have "timestamp b' \<in> set (map timestamp ?cur)" by simp
    with s2 have "timestamp b' \<le> last (map timestamp ?cur)" by (rule sorted_le_last)
    then show ?thesis using ne by (simp add: last_map)
  qed
  from mem mx show ?thesis by auto
qed

text \<open>
  C6, as stated, fails on a dataset that holds the frame without columns: the instrument
  has no bar at all, yet it is not omitted, because reading its timestamp column raises
  \<open>KeyError\<close> and no snapshot is built for any instrument.
\<close>

theorem snapshot_raises_on_columnless_frame:
  "map_of ex_mixed_hdata ''ETH/USDT'' = Some Columnless \<and> frame_rows Columnless = [] \<and>
   prepare_market_snapshot ex_mixed_hdata 2 = Inl KeyError"
  by (simp add: ex_mixed_hdata_def frame_rows_def prepare_market_snapshot_def
      snapshot_step_def select_by_timestamp_def ex_bar_def Let_def)

text \<open>
  C6, amended.  For a dataset (a dictionary, so with distinct symbols) all of whose
  frames have the OHLCV columns, and any cursor, the snapshot is built, and: an
  instrument of the snapshot carries exactly the bars of its frame whose timestamp is
  at or before the cursor; its ticker is that of the last such row (last = close,
  bid = low, ask = high, volume = volume), which is a most recent such bar when the frame
  is ordered by timestamp; and an instrument is absent from the snapshot exactly when it
  is not in the dataset or has no bar at or before the cursor.
\<close>

theorem snapshot_no_look_ahead:
  assumes d: "distinct (map fst hdata)"
    and c: "Columnless \<notin> snd ` set hdata"
  shows "\<exists>snapshot. prepare_market_snapshot hdata ts = Inr snapshot \<and>
     (\<forall>e. map_of snapshot s = Some e \<longrightarrow>
        (\<exists>rows. map_of hdata s = Some (Frame rows) \<and>
           ohlcv e = Frame (filter (\<lambda>b. timestamp b \<le> ts) rows) \<and>
           (\<forall>b \<in> set (frame_rows (ohlcv e)). timestamp b \<le> ts) \<and>
           (\<exists>b \<in> set rows. timestamp b \<le> ts \<and>
              b = last (filter (\<lambda>b. timestamp b \<le> ts) rows) \<and>
              ticker e = \<lparr>last_price = close b, bid = low b, ask = high b,
                           tick_volume = volume b\<rparr> \<and>
              (sorted (map timestamp rows) \<longrightarrow>
                 (\<forall>b' \<in> set rows. timestamp b' \<le> ts \<longrightarrow> timestamp b' \<le> timestamp b))))) \<and>
     (map_of snapshot s = None \<longleftrightarrow>
        (\<forall>rows. map_of hdata s = Some (Frame rows) \<longrightarrow> (\<forall>b \<in> set rows. ts < timestamp b)))"
proof -
  from snapshot_lookup[OF d c, of ts] obtain snapshot where
    sn: "prepare_market_snapshot hdata ts = Inr snapshot"
    and lk: "\<And>s. map_of snapshot s =
        (case map_of hdata s of None \<Rightarrow> None
         | Some df \<Rightarrow> snapshot_entry (frame_rows df) ts)"
    by blast
  have fr: "\<exists>rows. df = Frame rows" if "map_of hdata s = Some df" for df
  proof -
    from that have "(s, df) \<in> set hdata" by (rule map_of_SomeD)
    then have "df \<in> snd ` set hdata" by force
    with c show ?thesis by (cases df) auto
  qed
  have present: "\<exists>rows. map_of hdata s = Some (Frame rows) \<and>
           ohlcv e = Frame (filter (\<lambda>b. timestamp b \<le> ts) rows) \<and>
           (\<forall>b \<in> set (frame_rows (ohlcv e)). timestamp b \<le> ts) \<and>
           (\<exists>b \<in> set rows. timestamp b \<le> ts \<and>
              b = last (filter (\<lambda>b. timestamp b \<le> ts) rows) \<and>
              ticker e = \<lparr>last_price = close b, bid = low b, ask = high b,
                           tick_volume = volume b\<rparr> \<and>
              (sorted (map timestamp rows) \<longrightarrow>
                 (\<forall>b' \<in> set rows. timestamp b' \<le> ts \<longrightarrow> timestamp b' \<le> timestamp b)))"
    if e: "map_of snapshot s = Some e" for e
  proof -
    from e lk[of s] obtain df where df: "map_of hdata s = Some df"
      and en: "snapshot_entry (frame_rows df) ts = Some e"
      by (auto split: option.splits)
    from fr[OF df] obtain rows where rows: "df = Frame rows" by blast
    let ?cur = "filter (\<lambda>b. timestamp b \<le> ts) rows"
    from en rows have ne: "?cur \<noteq> []"
      and ee: "e = \<lparr>ticker = bar_ticker (last ?cur), ohlcv = Frame ?cur\<rparr>"
      by (auto simp: snapshot_entry_def frame_rows_def Let_def split: if_splits)
    have mem: "last ?cur \<in> set ?cur" using ne by (rule last_in_set)
    have mr: "\<forall>b' \<in> set rows. timestamp b' \<le> ts \<longrightarrow> timestamp b' \<le> timestamp (last ?cur)"
      if "sorted (map timestamp rows)"
      using last_filter_most_recent[OF that ne] by blast
    show ?thesis
    proof (intro exI[of _ rows] conjI)
      show "map_of hdata s = Some (Frame rows)" using df rows by simp
      show "ohlcv e = Frame ?cur" using ee by simp
      show "\<forall>b \<in> set (frame_rows (ohlcv e)). timestamp b \<le> ts"
        using ee by (simp add: frame_rows_def)
      show "\<exists>b \<in> set rows. timestamp b \<le> ts \<and> b = last ?cur \<and>
              ticker e = \<lparr>last_price = close b, bid = low b, ask = high b,
                           tick_volume = volume b\<rparr> \<and>
              (sorted (map timestamp rows) \<longrightarrow>
                 (\<forall>b' \<in> set rows. timestamp b' \<le> ts \<longrightarrow> timestamp b' \<le> timestamp b))"
        using mem ee mr by (intro bexI[of _ "last ?cur"]) (auto simp: bar_ticker_def)
    qed
  qed
  have absent: "map_of snapshot s = None \<longleftrightarrow>
        (\<forall>rows. map_of hdata s = Some (Frame rows) \<longrightarrow> (\<forall>b \<in> set rows. ts < timestamp b))"
  proof (cases "map_of hdata s")
    case None
    then show ?thesis using lk[of s] by simp
  next
    case (Some df)
    from fr[OF Some] obtain rows where rows: "df = Frame rows" by blast
    show ?thesis using lk[of s] Some rows
      by (auto simp: snapshot_entry_def frame_rows_def Let_def filter_empty_conv not_le)
  qed
  show ?thesis
  proof (intro exI[of _ snapshot] conjI)
    show "prepare_market_snapshot hdata ts = Inr snapshot" by (rule sn)
    show "map_of snapshot s = None \<longleftrightarrow>
        (\<forall>rows. map_of hdata s = Some (Frame rows) \<longrightarrow> (\<forall>b \<in> set rows. ts < timestamp b))"
      by (rule absent)
  qed (intro allI impI, rule present)
qed

theorem snapshot_no_look_ahead_witness:
  "\<exists>snapshot. prepare_market_snapshot ex_hdata2 2 = Inr snapshot \<and>
     map_of snapshot ''ETH/USDT'' = None \<and>
     (\<exists>e. map_of snapshot ''BTC/USDT'' = Some e \<and>
        ohlcv e = Frame [ex_bar 1 50000, ex_bar 2 51000] \<and> last_price (ticker e) = 51000)"
proof -
  have d: "distinct (map fst ex_hdata2)" by (simp add: ex_hdata2_def)
  have c: "Columnless \<notin> snd ` set ex_hdata2" by (simp add: ex_hdata2_def)
  from snapshot_no_look_ahead [OF d c, of 2 "''ETH/USDT''"]
  obtain snapshot where sn: "prepare_market_snapshot ex_hdata2 2 = Inr snapshot"
    and 1: "map_of snapshot ''ETH/USDT'' = None"
    by (auto simp: ex_hdata2_def ex_bar_def)
  from snapshot_no_look_ahead [OF d c, of 2 "''BTC/USDT''"] sn
  have 2: "map_of snapshot ''BTC/USDT'' \<noteq> None"
    and 3: "\<forall>e. map_of snapshot ''BTC/USDT'' = Some e \<longrightarrow>
        ohlcv e = Frame [ex_bar 1 50000, ex_bar 2 51000] \<and>
        ticker e = \<lparr>last_price = close (ex_bar 2 51000), bid = low (ex_bar 2 51000),
                     ask = high (ex_bar 2 51000), tick_volume = volume (ex_bar 2 51000)\<rparr>"
    by (auto simp: ex_hdata2_def ex_bar_def)
  from 2 obtain e where e: "map_of snapshot ''BTC/USDT'' = Some e" by auto
  with 3 have "ohlcv e = Frame [ex_bar 1 50000, ex_bar 2 51000]"
    and "last_price (ticker e) = 51000"
    by (auto simp: ex_bar_def)
  with sn 1 e show ?thesis by blast
qed

section \<open>Properties of the replay loop\<close>

lemma append_trade_frame:
  "equity_curve (snd (append_trade bt mk)) = equity_curve bt"
  "initial_capital (snd (append_trade bt mk)) = initial_capital bt"
  "timestamps (snd (append_trade bt mk)) = timestamps bt"
  by (simp_all add: append_trade_def)

lemma append_trade_returns: "timestamps bt \<noteq> [] \<Longrightarrow> fst (append_trade bt mk) = None"
  by (simp add: append_trade_def)

lemma execute_frame:
  "equity_curve (snd (execute_backtest_signal sg md bt)) = equity_curve bt"
  "initial_capital (snd (execute_backtest_signal sg md bt)) = initial_capital bt"
  "timestamps (snd (execute_backtest_signal sg md bt)) = timestamps bt"
  by (simp_all add: execute_backtest_signal_def Let_def append_trade_frame split: option.splits)

lemma execute_returns:
  "timestamps bt \<noteq> [] \<Longrightarrow> fst (execute_backtest_signal sg md bt) = None"
  by (simp add: execute_backtest_signal_def Let_def append_trade_returns split: option.splits)

lemma run_loop_equity:
  "run_loop strategy hdata rows st bt = (None, bt') \<Longrightarrow>
     (\<exists>vs. equity_curve bt' = equity_curve bt @ vs \<and> length vs = length rows) \<and>
     initial_capital bt' = initial_capital bt \<and>
     timestamps bt' = timestamps bt @ map timestamp rows"
proof (induction rows arbitrary: st bt)
  case Nil
  then show ?case by simp
next
  case (Cons row rows)
  let ?bt1 = "bt\<lparr>timestamps := timestamps bt @ [timestamp row]\<rparr>"
  from Cons.prems obtain snap where sn: "prepare_market_snapshot hdata (timestamp row) = Inr snap"
    by (auto simp: Let_def split: sum.splits)
  from Cons.prems sn obtain sg st' where str: "strategy st snap = Inr (sg, st')"
    by (auto simp: Let_def split: sum.splits)
  define ex where "ex = (case sg of None \<Rightarrow> (None, ?bt1)
                   | Some s \<Rightarrow> execute_backtest_signal s snap ?bt1)"
  from Cons.prems sn str obtain bt2 where ex2: "ex = (None, bt2)"
    by (auto simp: Let_def ex_def split: option.splits prod.splits)
  have fr: "equity_curve bt2 = equity_curve bt" "initial_capital bt2 = initial_capital bt"
    "timestamps bt2 = timestamps bt @ [timestamp row]"
  proof -
    have b: "bt2 = snd ex" using ex2 by simp
    show "equity_curve bt2 = equity_curve bt" "initial_capital bt2 = initial_capital bt"
      "timestamps bt2 = timestamps bt @ [timestamp row]"
      unfolding b ex_def by (cases sg; simp add: execute_frame)+
  qed
  let ?bt3 = "bt2\<lparr>equity_curve := equity_curve bt2 @ [calculate_portfolio_value snap bt2]\<rparr>"
  from Cons.prems sn str ex2 have "run_loop strategy hdata rows st' ?bt3 = (None, bt')"
    by (simp add: Let_def ex_def)
  from Cons.IH[OF this] show ?case using fr by auto
qed

lemma run_loop_returns:
  assumes "\<forall>s m. \<exists>r. strategy s m = Inr r"
    and "rows \<noteq> [] \<longrightarrow> Columnless \<notin> snd ` set hdata"
  shows "fst (run_loop strategy hdata rows st bt) = None"
  using assms(2)
proof (induction rows arbitrary: st bt)
  case Nil
  then show ?case by simp
next
  case (Cons row rows)
  then have c: "Columnless \<notin> snd ` set hdata" by simp
  let ?bt1 = "bt\<lparr>timestamps := timestamps bt @ [timestamp row]\<rparr>"
  from snapshot_loop_returns[OF c, of "timestamp row" "[]"]
  obtain snap where sn: "prepare_market_snapshot hdata (timestamp row) = Inr snap"
    by (auto simp: prepare_market_snapshot_def)
  from assms(1) obtain sg st' where str: "strategy st snap = Inr (sg, st')" by (metis surj_pair)
  define ex where "ex = (case sg of None \<Rightarrow> (None, ?bt1)
                   | Some s \<Rightarrow> execute_backtest_signal s snap ?bt1)"
  have "fst ex = None"
    using execute_returns[of ?bt1 _ snap] by (simp add: ex_def split: option.splits)
  then obtain bt2 where ex2: "ex = (None, bt2)" by (cases ex) auto
  show ?case using sn str ex2 Cons.IH c by (simp add: Let_def ex_def)
qed

lemma calculate_metrics_returns:
  "equity_curve bt \<noteq> [] \<Longrightarrow> \<exists>res. calculate_metrics bt = Inr res"
  by (cases "equity_curve bt")
     (auto simp: calculate_metrics_def Let_def np_min_def drawdown_series_def
       maximum_accumulate_def split: sum.splits list.splits)

lemma calculate_metrics_equity:
  "calculate_metrics bt = Inr res \<Longrightarrow> r_equity_curve res = equity_curve bt"
  by (auto simp: calculate_metrics_def Let_def split: sum.splits if_splits)

text \<open>
  C1.  \<open>reset\<close> seeds the equity curve with the initial capital.  Every run that returns
  a result over a primary bar sequence of N bars (the first frame of the dataset, cut to
  the date range) has an equity curve of length N + 1 whose entry at index 0 is the
  initial capital; and a run returns a result whenever the strategy does not raise, the
  primary frame can be cut to the date range and, if it has bars, every frame of the
  dataset has its columns.
\<close>

theorem equity_curve_length:
  "equity_curve (reset bt) = [initial_capital bt] \<and>
   (run strategy st hdata start_date end_date bt = (Inr res, bt') \<longrightarrow>
      length (r_equity_curve res) = length (primary_bars hdata start_date end_date) + 1 \<and>
      r_equity_curve res ! 0 = initial_capital bt \<and>
      equity_curve bt' = r_equity_curve res) \<and>
   ((\<forall>s m. \<exists>r. strategy s m = Inr r) \<and>
    (\<exists>df. primary_frame hdata start_date end_date = Inr df \<and>
       (frame_rows df \<noteq> [] \<longrightarrow> Columnless \<notin> snd ` set hdata)) \<longrightarrow>
      (\<exists>res bt'. run strategy st hdata start_date end_date bt = (Inr res, bt')))"
proof (rule conjI[OF _ conjI]; (rule impI)?)
  show "equity_curve (reset bt) = [initial_capital bt]" by (simp add: reset_def)
next
  assume r: "run strategy st hdata start_date end_date bt = (Inr res, bt')"
  then obtain df where pf: "primary_frame hdata start_date end_date = Inr df"
    by (auto simp: run_def Let_def split: sum.splits)
  let ?rows = "frame_rows df"
  from r pf have lp: "run_loop strategy hdata ?rows st (reset bt) = (None, bt')"
    and cm: "calculate_metrics bt' = Inr res"
    by (auto simp: run_def Let_def split: prod.splits option.splits)
  from run_loop_equity[OF lp] obtain vs where
    "equity_curve bt' = [initial_capital bt] @ vs" "length vs = length ?rows"
    by (auto simp: reset_def)
  with calculate_metrics_equity[OF cm] pf
  show "length (r_equity_curve res) = length (primary_bars hdata start_date end_date) + 1 \<and>
      r_equity_curve res ! 0 = initial_capital bt \<and>
      equity_curve bt' = r_equity_curve res"
    by (simp add: primary_bars_def)
next
  assume a: "(\<forall>s m. \<exists>r. strategy s m = Inr r) \<and>
    (\<exists>df. primary_frame hdata start_date end_date = Inr df \<and>
       (frame_rows df \<noteq> [] \<longrightarrow> Columnless \<notin> snd ` set hdata))"
  then obtain df where pf: "primary_frame hdata start_date end_date = Inr df"
    and c: "frame_rows df \<noteq> [] \<longrightarrow> Columnless \<notin> snd ` set hdata" by blast
  let ?rows = "frame_rows df"
  from a c have "fst (run_loop strategy hdata ?rows st (reset bt)) = None"
    by (intro run_loop_returns) simp_all
  then obtain bt1 where lp: "run_loop strategy hdata ?rows st (reset bt) = (None, bt1)"
    by (cases "run_loop strategy hdata ?rows st (reset bt)") auto
  from run_loop_equity[OF lp] have "equity_curve bt1 \<noteq> []" by (auto simp: reset_def)
  from calculate_metrics_returns[OF this] obtain res where "calculate_metrics bt1 = Inr res" ..
  with lp pf show "\<exists>res bt'. run strategy st hdata start_date end_date bt = (Inr res, bt')"
    by (simp add: run_def Let_def)
qed

theorem equity_curve_length_witness:
  "\<exists>res bt'. run ex_strategy 0 ex_hdata None None ex_small_engine = (Inr res, bt') \<and>
     length (r_equity_curve res) = 3 \<and> r_equity_curve res ! 0 = 100000"
proof -
  have "(\<forall>s m. \<exists>r. ex_strategy s m = Inr r) \<and>
    (\<exists>df. primary_frame ex_hdata None None = Inr df \<and>
       (frame_rows df \<noteq> [] \<longrightarrow> Columnless \<notin> snd ` set ex_hdata))"
    by (simp add: ex_hdata_def primary_frame_def date_filter_def)
  with equity_curve_length [where strategy = ex_strategy and st = 0 and hdata = ex_hdata
      and start_date = None and end_date = None and bt = ex_small_engine]
  obtain res bt' where r: "run ex_strategy 0 ex_hdata None None ex_small_engine = (Inr res, bt')"
    by blast
  with equity_curve_length [where strategy = ex_strategy and st = 0 and hdata = ex_hdata
      and start_date = None and end_date = None and bt = ex_small_engine and res = res
      and bt' = bt']
  have "length (r_equity_curve res) = length (primary_bars ex_hdata None None) + 1 \<and>
      r_equity_curve res ! 0 = initial_capital ex_small_engine" by simp
  then have "length (r_equity_curve res) = 3 \<and> r_equity_curve res ! 0 = 100000"
    by (simp add: primary_bars_def primary_frame_def ex_hdata_def date_filter_def frame_rows_def
        ex_small_engine_def ex_engine_def init_def reset_def)
  with r show ?thesis by blast
qed

section \<open>Properties of the metrics\<close>

lemma length_maximum_accumulate_from [simp]:
  "length (maximum_accumulate_from m xs) = length xs"
  by (induction xs arbitrary: m) auto

lemma length_maximum_accumulate [simp]: "length (maximum_accumulate xs) = length xs"
  by (cases xs) (auto simp: maximum_accumulate_def)

lemma maximum_accumulate_from_nth:
  "i < length xs \<Longrightarrow> maximum_accumulate_from m xs ! i = Max (insert m (set (take (Suc i) xs)))"
proof (induction xs arbitrary: m i)
  case Nil
  then show ?case by simp
next
  case (Cons x xs)
  show ?case
  proof (cases i)
    case 0
    then show ?thesis by (simp add: max.commute)
  next
    case (Suc j)
    with Cons.prems have j: "j < length xs" by simp
    have "Max (insert (max m x) (set (take (Suc j) xs)))
        = Max (insert m (insert x (set (take (Suc j) xs))))"
      by (cases "set (take (Suc j) xs) = {}") (simp_all add: max.assoc)
    with Suc Cons.IH[OF j, of "max m x"] show ?thesis by simp
  qed
qed

lemma maximum_accumulate_nth:
  "i < length xs \<Longrightarrow> maximum_accumulate xs ! i = running_max xs i"
proof (cases xs)
  case Nil
  then show "i < length xs \<Longrightarrow> ?thesis" by simp
next
  case (Cons x ys)
  assume "i < length xs"
  with Cons show ?thesis
    by (cases i) (simp_all add: maximum_accumulate_def running_max_def maximum_accumulate_from_nth)
qed

lemma fold_fmin_Fin:
  "fold (\<lambda>y acc. fmin acc y) (map Fin ys) (Fin x) = Fin (fold min ys x)"
  by (induction ys arbitrary: x) (auto simp: fmin_def min_def)

lemma np_min_Fin:
  "vs \<noteq> [] \<Longrightarrow> np_min (map Fin vs) = Inr (Fin (Min (set vs)))"
proof (cases vs)
  case Nil
  then show "vs \<noteq> [] \<Longrightarrow> ?thesis" by simp
next
  case (Cons a list)
  have "Min (set (a # list)) = fold min list a" by (rule Min.set_eq_fold)
  then show ?thesis unfolding Cons by (simp add: np_min_def fold_fmin_Fin)
qed

lemma drawdown_series_finite:
  assumes "0 \<notin> set (maximum_accumulate equity)"
  shows "drawdown_series equity = map Fin (map (spec_drawdown equity) [0..<length equity])"
proof (rule nth_equalityI)
  show "length (drawdown_series equity) = length (map Fin (map (spec_drawdown equity) [0..<length equity]))"
    by (simp add: drawdown_series_def)
next
  fix i assume "i < length (drawdown_series equity)"
  then have i: "i < length equity" by (simp add: drawdown_series_def)
  then have "maximum_accumulate equity ! i \<in> set (maximum_accumulate equity)" by simp
  with assms have nz: "maximum_accumulate equity ! i \<noteq> 0" by metis
  show "drawdown_series equity ! i = map Fin (map (spec_drawdown equity) [0..<length equity]) ! i"
    using i nz
    by (simp add: drawdown_series_def spec_drawdown_def maximum_accumulate_nth[symmetric])
qed

lemma spec_max_drawdown_nonpos:
  assumes ne: "equity \<noteq> []" and nz: "0 \<notin> set (maximum_accumulate equity)"
  shows "spec_max_drawdown equity \<le> 0"
proof -
  have "spec_drawdown equity 0 = 0"
    using ne by (cases equity) (simp_all add: spec_drawdown_def running_max_def)
  moreover have "spec_drawdown equity 0 \<in> set (map (spec_drawdown equity) [0..<length equity])"
  proof -
    have "0 \<in> {0..<length equity}" using ne by simp
    then show ?thesis by (simp del: atLeastLessThan_iff)
  qed
  ultimately show ?thesis
    unfolding spec_max_drawdown_def by (metis List.finite_set Min_le)
qed

lemma metrics_max_drawdown:
  "equity_curve bt \<noteq> [] \<Longrightarrow>
     map_sum id r_max_drawdown (calculate_metrics bt) = np_min (drawdown_series (equity_curve bt)) \<and>
     map_sum id r_max_drawdown_pct (calculate_metrics bt)
       = map_sum id (\<lambda>d. fmul d (Fin 100)) (np_min (drawdown_series (equity_curve bt)))"
  by (simp add: calculate_metrics_def Let_def split: sum.splits)

lemma positive_start_no_zero_max:
  assumes "0 < hd equity"
  shows "0 \<notin> set (maximum_accumulate equity)"
proof (cases equity)
  case Nil
  then show ?thesis by (simp add: maximum_accumulate_def)
next
  case (Cons x ys)
  have "0 < m \<Longrightarrow> \<forall>v \<in> set (maximum_accumulate_from m zs). 0 < v" for m zs
  proof (induction zs arbitrary: m)
    case Nil
    then show ?case by simp
  next
    case (Cons z zs)
    from Cons.prems have "0 < max m z" by (simp add: less_max_iff_disj)
    with Cons.IH[of "max m z"] show ?case by simp
  qed
  from this[of x ys] assms Cons show ?thesis
    by (auto simp: maximum_accumulate_def)
qed

text \<open>
  C8, as stated, fails for an equity curve that starts at zero: with initial capital 0
  the first drawdown is 0 / 0, so the maximum drawdown is \<open>NaN\<close>, which is not a
  non-positive number.
\<close>

theorem max_drawdown_nan_at_zero_capital:
  "map_sum id r_max_drawdown (calculate_metrics (init 0 (1 / 1000) (5 / 10000))) = Inr NaN \<and>
   \<not> fle NaN (Fin 0)"
  by (simp add: calculate_metrics_def init_def reset_def Let_def np_diff_def np_min_def
      drawdown_series_def maximum_accumulate_def fle_def)

text \<open>
  C8, amended.  For every equity curve whose running maximum is never zero (so for every
  curve that starts above zero), the maximum drawdown is the least, over all indices i,
  of (equity[i] - runningMax[i]) / runningMax[i], it is not positive, and the percentage
  is that number times 100; the running maximum the code accumulates is the greatest
  value of the curve up to the index.  The curve [100000, 110000, 90000, 95000] has
  maximum drawdown (90000 - 110000) / 110000.
\<close>

theorem max_drawdown_formula:
  "(equity_curve bt \<noteq> [] \<and> 0 \<notin> set (maximum_accumulate (equity_curve bt)) \<longrightarrow>
      (\<exists>res. calculate_metrics bt = Inr res \<and>
         r_max_drawdown res = Fin (spec_max_drawdown (equity_curve bt)) \<and>
         spec_max_drawdown (equity_curve bt) \<le> 0 \<and>
         r_max_drawdown_pct res = Fin (spec_max_drawdown (equity_curve bt) * 100))) \<and>
   (\<forall>i < length (equity_curve bt).
       maximum_accumulate (equity_curve bt) ! i = running_max (equity_curve bt) i) \<and>
   (0 < hd (equity_curve bt) \<longrightarrow> 0 \<notin> set (maximum_accumulate (equity_curve bt))) \<and>
   map_sum id r_max_drawdown (calculate_metrics ex_curve_engine)
     = Inr (Fin ((90000 - 110000) / 110000))"
proof (intro conjI)
  show "equity_curve bt \<noteq> [] \<and> 0 \<notin> set (maximum_accumulate (equity_curve bt)) \<longrightarrow>
      (\<exists>res. calculate_metrics bt = Inr res \<and>
         r_max_drawdown res = Fin (spec_max_drawdown (equity_curve bt)) \<and>
         spec_max_drawdown (equity_curve bt) \<le> 0 \<and>
         r_max_drawdown_pct res = Fin (spec_max_drawdown (equity_curve bt) * 100))"
  proof
    assume h: "equity_curve bt \<noteq> [] \<and> 0 \<notin> set (maximum_accumulate (equity_curve bt))"
    let ?eq = "equity_curve bt"
    from h have ne: "?eq \<noteq> []" and nz: "0 \<notin> set (maximum_accumulate ?eq)" by simp_all
    have "np_min (drawdown_series ?eq) = Inr (Fin (spec_max_drawdown ?eq))"
      using ne by (simp add: drawdown_series_finite[OF nz] np_min_Fin spec_max_drawdown_def
          del: map_map)
    with metrics_max_drawdown[OF ne]
    have m: "map_sum id r_max_drawdown (calculate_metrics bt) = Inr (Fin (spec_max_drawdown ?eq))"
      and p: "map_sum id r_max_drawdown_pct (calculate_metrics bt)
                = Inr (Fin (spec_max_drawdown ?eq * 100))"
      by simp_all
    from m obtain res where r: "calculate_metrics bt = Inr res"
      by (cases "calculate_metrics bt") auto
    with m p spec_max_drawdown_nonpos[OF ne nz]
    show "\<exists>res. calculate_metrics bt = Inr res \<and>
         r_max_drawdown res = Fin (spec_max_drawdown ?eq) \<and>
         spec_max_drawdown ?eq \<le> 0 \<and>
         r_max_drawdown_pct res = Fin (spec_max_drawdown ?eq * 100)"
      by simp
  qed
  show "\<forall>i < length (equity_curve bt).
       maximum_accumulate (equity_curve bt) ! i = running_max (equity_curve bt) i"
    by (simp add: maximum_accumulate_nth)
  show "0 < hd (equity_curve bt) \<longrightarrow> 0 \<notin> set (maximum_accumulate (equity_curve bt))"
    using positive_start_no_zero_max by blast
  have "equity_curve ex_curve_engine \<noteq> []" by (simp add: ex_curve_engine_def)
  from metrics_max_drawdown[OF this]
  show "map_sum id r_max_drawdown (calculate_metrics ex_curve_engine)
     = Inr (Fin ((90000 - 110000) / 110000))"
    by (simp add: ex_curve_engine_def np_min_def drawdown_series_def maximum_accumulate_def
        fmin_def)
qed

theorem max_drawdown_formula_witness:
  "\<exists>res. calculate_metrics ex_curve_engine = Inr res \<and>
     r_max_drawdown res = Fin (spec_max_drawdown [100000, 110000, 90000, 95000]) \<and>
     spec_max_drawdown [100000, 110000, 90000, 95000] \<le> 0 \<and>
     r_max_drawdown res = Fin (- 2 / 11)"
proof -
  have "0 < hd (equity_curve ex_curve_engine)" by (simp add: ex_curve_engine_def)
  with max_drawdown_formula [of ex_curve_engine]
  have h: "equity_curve ex_curve_engine \<noteq> [] \<and>
     0 \<notin> set (maximum_accumulate (equity_curve ex_curve_engine))"
    by (simp add: ex_curve_engine_def)
  with max_drawdown_formula [of ex_curve_engine]
  obtain res where r: "calculate_metrics ex_curve_engine = Inr res"
    and m: "r_max_drawdown res = Fin (spec_max_drawdown (equity_curve ex_curve_engine))"
    and n: "spec_max_drawdown (equity_curve ex_curve_engine) \<le> 0"
    by blast
  from max_drawdown_formula [of ex_curve_engine] r
  have "r_max_drawdown res = Fin (- 2 / 11)" by simp
  with r m n show ?thesis by (simp add: ex_curve_engine_def)
qed

text \<open>
  C9, as stated, fails in two ways.  When the initial capital is zero the run over zero
  bars returns, but its maximum drawdown is \<open>NaN\<close>, not zero.  And when the primary
  instrument has the frame without columns and a date bound is given, the run raises
  \<open>KeyError\<close>.
\<close>

theorem zero_bars_zero_capital:
  "primary_bars ex_empty_hdata None None = [] \<and>
   map_sum id r_max_drawdown
     (fst (run ex_strategy 0 ex_empty_hdata None None (init 0 (1 / 1000) (5 / 10000))))
     = Inr NaN \<and> NaN \<noteq> Fin 0 \<and>
   frame_rows (snd (hd ex_columnless_hdata)) = [] \<and>
   fst (run ex_strategy 0 ex_columnless_hdata (Some 0) None ex_small_engine) = Inl KeyError"
  by (simp add: run_def ex_empty_hdata_def ex_columnless_hdata_def primary_bars_def
      primary_frame_def date_filter_def select_by_timestamp_def frame_rows_def
      calculate_metrics_def init_def reset_def Let_def np_diff_def np_min_def
      drawdown_series_def maximum_accumulate_def)

text \<open>
  C9, amended.  A run over a dataset whose primary frame, cut to the date range without
  an error, has zero bars (a frame with columns and no row in the range, or the frame
  without columns when no date bound is given) raises nothing and leaves the engine
  reset: it returns a result with the equity curve [initial capital], no timestamps,
  zero trades, volatility 0 and Sharpe ratio 0; the maximum drawdown and the total
  return are 0 when the initial capital is not zero, and \<open>NaN\<close> when it is zero.
\<close>

theorem zero_bars_degenerate_result:
  assumes "primary_frame hdata start_date end_date = Inr df" and "frame_rows df = []"
  shows "run strategy st hdata start_date end_date bt =
     (Inr \<lparr>r_initial_capital = initial_capital bt,
           r_final_value = initial_capital bt,
           r_total_return = (if initial_capital bt = 0 then NaN else Fin 0),
           r_total_return_pct = (if initial_capital bt = 0 then NaN else Fin 0),
           r_num_trades = 0,
           r_volatility = Fin 0,
           r_sharpe_ratio = Fin 0,
           r_max_drawdown = (if initial_capital bt = 0 then NaN else Fin 0),
           r_max_drawdown_pct = (if initial_capital bt = 0 then NaN else Fin 0),
           r_equity_curve = [initial_capital bt],
           r_timestamps = [],
           r_trades = []\<rparr>, reset bt)"
proof -
  have m: "calculate_metrics (reset bt) =
     Inr \<lparr>r_initial_capital = initial_capital bt,
           r_final_value = initial_capital bt,
           r_total_return = (if initial_capital bt = 0 then NaN else Fin 0),
           r_total_return_pct = (if initial_capital bt = 0 then NaN else Fin 0),
           r_num_trades = 0,
           r_volatility = Fin 0,
           r_sharpe_ratio = Fin 0,
           r_max_drawdown = (if initial_capital bt = 0 then NaN else Fin 0),
           r_max_drawdown_pct = (if initial_capital bt = 0 then NaN else Fin 0),
           r_equity_curve = [initial_capital bt],
           r_timestamps = [],
           r_trades = []\<rparr>"
    by (simp add: calculate_metrics_def reset_def Let_def np_diff_def np_min_def
        drawdown_series_def maximum_accumulate_def fgt_def)
  show ?thesis using assms m by (simp add: run_def Let_def)
qed

theorem zero_bars_degenerate_result_witness:
  "r_max_drawdown (projr (fst (run ex_strategy 0 ex_empty_hdata (Some 1) (Some 5) ex_small_engine)))
     = Fin 0 \<and>
   r_volatility (projr (fst (run ex_strategy 0 ex_empty_hdata (Some 1) (Some 5) ex_small_engine)))
     = Fin 0 \<and>
   r_equity_curve (projr (fst (run ex_strategy 0 ex_empty_hdata (Some 1) (Some 5) ex_small_engine)))
     = [100000] \<and>
   snd (run ex_strategy 0 ex_empty_hdata (Some 1) (Some 5) ex_small_engine)
     = reset ex_small_engine \<and>
   r_equity_curve (projr (fst (run ex_strategy 0 ex_columnless_hdata None None ex_small_engine)))
     = [100000]"
proof -
  have a: "primary_frame ex_empty_hdata (Some 1) (Some 5) = Inr (Frame [])"
    "frame_rows (Frame []) = []"
    by (simp_all add: ex_empty_hdata_def primary_frame_def date_filter_def
        select_by_timestamp_def frame_rows_def)
  have b: "primary_frame ex_columnless_hdata None None = Inr Columnless"
    "frame_rows Columnless = []"
    by (simp_all add: ex_columnless_hdata_def primary_frame_def date_filter_def frame_rows_def)
  from zero_bars_degenerate_result [OF a, of ex_strategy 0 ex_small_engine]
    zero_bars_degenerate_result [OF b, of ex_strategy 0 ex_small_engine]
  show ?thesis
    by (simp add: ex_small_engine_def ex_engine_def init_def reset_def)
qed

section \<open>Properties of the Relative Strength Index\<close>

lemma nonneg_fin_iff: "nonneg_fin x \<longleftrightarrow> (\<exists>a. x = Fin a \<and> 0 \<le> a)"
  by (cases x) (simp_all add: nonneg_fin_def)

lemma length_series_diff [simp]: "length (series_diff xs) = length xs"
  by (cases xs) (simp_all add: series_diff_def)

lemma series_diff_elems: "x \<in> set (series_diff xs) \<Longrightarrow> x = NaN \<or> (\<exists>d. x = Fin d)"
  by (cases xs) (auto simp: series_diff_def set_zip)

lemma length_series_where [simp]: "length (series_where c v xs) = length xs"
  by (simp add: series_where_def)

lemma rolling_mean_nth: "i < length xs \<Longrightarrow> rolling_mean w xs ! i = rolling_mean_at w xs i"
  by (simp add: rolling_mean_def)

lemma length_rolling_mean [simp]: "length (rolling_mean w xs) = length xs"
  by (simp add: rolling_mean_def)

lemma gain_input_nonneg:
  "list_all nonneg_fin (series_where (\<lambda>d. fgt d (Fin 0)) (Fin 0) (series_diff data))"
  unfolding list_all_iff series_where_def
proof
  fix y assume "y \<in> set (map (\<lambda>x. if fgt x (Fin 0) then x else Fin 0) (series_diff data))"
  then obtain x where x: "x \<in> set (series_diff data)"
    and y: "y = (if fgt x (Fin 0) then x else Fin 0)" by auto
  from series_diff_elems[OF x] show "nonneg_fin y"
    unfolding y by (auto simp: fgt_def nonneg_fin_def)
qed

lemma loss_input_nonneg:
  "list_all nonneg_fin (map fneg (series_where (\<lambda>d. flt d (Fin 0)) (Fin 0) (series_diff data)))"
  unfolding list_all_iff series_where_def
proof
  fix y assume "y \<in> set (map fneg (map (\<lambda>x. if flt x (Fin 0) then x else Fin 0) (series_diff data)))"
  then obtain x where x: "x \<in> set (series_diff data)"
    and y: "y = fneg (if flt x (Fin 0) then x else Fin 0)" by auto
  from series_diff_elems[OF x] show "nonneg_fin y"
    unfolding y by (auto simp: nonneg_fin_def)
qed

lemma fold_fadd_nonneg:
  "list_all nonneg_fin xs \<Longrightarrow> 0 \<le> a \<Longrightarrow> nonneg_fin (fold (\<lambda>x acc. fadd acc x) xs (Fin a))"
proof (induction xs arbitrary: a)
  case Nil
  then show ?case by (simp add: nonneg_fin_def)
next
  case (Cons x xs)
  from Cons.prems obtain b where b: "x = Fin b" "0 \<le> b" by (auto simp: nonneg_fin_iff)
  with Cons.prems have "0 \<le> a + b" by simp
  with Cons.IH[of "a + b"] Cons.prems b show ?case by simp
qed

lemma rolling_mean_at_nonneg:
  assumes "list_all nonneg_fin xs"
  shows "rolling_mean_at w xs i =
           (if w = 0 \<or> min (Suc i) (length xs) - (Suc i - w) < w then NaN
            else rolling_mean_at w xs i) \<and>
         (\<not> (w = 0 \<or> min (Suc i) (length xs) - (Suc i - w) < w)
            \<longrightarrow> nonneg_fin (rolling_mean_at w xs i))"
proof -
  define win where "win = drop (Suc i - w) (take (Suc i) xs)"
  have all: "list_all nonneg_fin win"
    using assms unfolding win_def by (auto simp: list_all_iff dest: in_set_dropD in_set_takeD)
  then have flt: "filter (\<lambda>x. x \<noteq> NaN) win = win"
    by (auto simp: list_all_iff nonneg_fin_iff intro!: filter_True)
  have len: "length win = min (Suc i) (length xs) - (Suc i - w)"
    unfolding win_def by (simp add: min.commute)
  have rm: "rolling_mean_at w xs i =
      (if w = 0 \<or> length win < w then NaN
       else fdiv (fold (\<lambda>x acc. fadd acc x) win (Fin 0)) (Fin (real (length win))))"
    unfolding rolling_mean_at_def Let_def win_def[symmetric] flt ..
  show ?thesis
  proof (cases "w = 0 \<or> length win < w")
    case True
    then show ?thesis using rm len by simp
  next
    case False
    then have pos: "0 < length win" by auto
    from fold_fadd_nonneg[OF all, of 0] obtain s where
      s: "fold (\<lambda>x acc. fadd acc x) win (Fin 0) = Fin s" "0 \<le> s"
      by (auto simp: nonneg_fin_iff)
    from rm False s pos have "rolling_mean_at w xs i = Fin (s / real (length win))"
      by simp
    moreover have "0 \<le> s / real (length win)" using s by simp
    ultimately show ?thesis using False len by (simp add: nonneg_fin_def)
  qed
qed

text \<open>
  C7, as stated, fails on a flat window: for the series [1, 1, 1] and period 2 the
  average loss at index 2 is zero and so is the average gain, the quotient is 0 / 0 and
  the RSI is \<open>NaN\<close>, not 100.
\<close>

theorem rsi_flat_window_is_nan:
  "(2::nat) < length [1, 1, 1 :: real] \<and> rsi_loss [1, 1, 1] 2 ! 2 = Fin 0 \<and>
   calculate_rsi [1, 1, 1] 2 ! 2 = NaN \<and> NaN \<noteq> Fin 100"
  by (simp add: calculate_rsi_def rsi_loss_def rsi_gain_def rolling_mean_def rolling_mean_at_def
      series_where_def series_diff_def fsub_def fgt_def Let_def)

text \<open>
  C7, amended.  At every position where the trailing average loss over the RSI window is
  zero (which needs a full window), the average gain is a finite number that is not
  negative; the RSI there is exactly 100 when the average gain is above zero (the
  quotient is infinite and 100 / (1 + RS) is 0), and \<open>NaN\<close> when the average gain is
  zero too.  The source has no guard: the value 100 comes from the division by zero.
\<close>

theorem rsi_at_zero_average_loss:
  assumes i: "i < length data" and z: "rsi_loss data period ! i = Fin 0"
  shows "(\<exists>g. rsi_gain data period ! i = Fin g \<and> 0 \<le> g) \<and>
         calculate_rsi data period ! i
           = (if rsi_gain data period ! i = Fin 0 then NaN else Fin 100)"
proof -
  let ?G = "series_where (\<lambda>d. fgt d (Fin 0)) (Fin 0) (series_diff data)"
  let ?L = "map fneg (series_where (\<lambda>d. flt d (Fin 0)) (Fin 0) (series_diff data))"
  have lg: "length ?G = length data" and ll: "length ?L = length data"
    by simp_all
  have gi: "rsi_gain data period ! i = rolling_mean_at period ?G i"
    and li: "rsi_loss data period ! i = rolling_mean_at period ?L i"
    using i by (simp_all add: rsi_gain_def rsi_loss_def rolling_mean_nth)
  have full: "\<not> (period = 0 \<or> min (Suc i) (length data) - (Suc i - period) < period)"
  proof
    assume "period = 0 \<or> min (Suc i) (length data) - (Suc i - period) < period"
    with rolling_mean_at_nonneg[OF loss_input_nonneg, of period data i]
    have "rolling_mean_at period ?L i = NaN" unfolding ll by metis
    with z li show False by simp
  qed
  with rolling_mean_at_nonneg[OF gain_input_nonneg, of period data i]
  have "nonneg_fin (rsi_gain data period ! i)" unfolding lg gi by blast
  then obtain g where g: "rsi_gain data period ! i = Fin g" "0 \<le> g"
    by (auto simp: nonneg_fin_iff)
  have "calculate_rsi data period ! i
      = fsub (Fin 100) (fdiv (Fin 100) (fadd (Fin 1)
          (fdiv (rsi_gain data period ! i) (rsi_loss data period ! i))))"
    using i by (simp add: calculate_rsi_def Let_def rsi_gain_def rsi_loss_def)
  with g z show ?thesis by (auto simp: fsub_def)
qed

theorem rsi_at_zero_average_loss_witness:
  "calculate_rsi [1, 2, 3] 2 ! 2 = Fin 100 \<and> rsi_gain [1, 2, 3] 2 ! 2 = Fin 1"
proof -
  have "(2::nat) < length [1, 2, 3 :: real]" by simp
  moreover have "rsi_loss [1, 2, 3] 2 ! 2 = Fin 0"
    by (simp add: rsi_loss_def rolling_mean_def rolling_mean_at_def
      series_where_def series_diff_def Let_def)
  moreover have "rsi_gain [1, 2, 3] 2 ! 2 = Fin 1"
    by (simp add: rsi_gain_def rolling_mean_def rolling_mean_at_def
      series_where_def series_diff_def fgt_def Let_def)
  ultimately show ?thesis
    using rsi_at_zero_average_loss [of 2 "[1, 2, 3]" 2] by simp
qed

end
